theory Spec2Isabelle
  imports Main
begin

section \<open>Data model\<close>

text \<open>
  Documents of the four collections the chat and authentication code reads and writes
  (\<open>DB/models\<close>), restricted to the fields that code touches. An ObjectId is a natural
  number; a field that may be \<open>undefined\<close> in the JavaScript is an \<open>option\<close>.
\<close>

type_synonym objectId = nat
type_synonym token = string
type_synonym socketId = string

datatype secret = JWT_SECRET_LOGIN | JWT_SECRET_REFRESH

text \<open>The payload of a token: the public claim \<open>_id\<close> and the registered claims \<open>jti\<close>, \<open>exp\<close>.\<close>

record decoded =
  d_id :: objectId
  jti :: string
  d_exp :: nat

record user =
  u_id :: objectId
  firstName :: string
  lastName :: string
  isDeleted :: bool

text \<open>A row of \<open>BlackListTokens\<close>; the same shape is attached to an authenticated user as \<open>token\<close>.\<close>

record token_entry =
  tokenId :: string
  expierdAt :: nat

record company =
  c_id :: objectId
  createdBy :: objectId
  HRs :: "objectId list"
  c_isDeleted :: bool

record message =
  m_id :: objectId
  body :: string
  senderId :: "objectId option"
  sentAt :: nat

record chat =
  chat_id :: objectId
  chat_senderId :: "objectId option"
  chat_receiverId :: "objectId option"
  messages :: "message list"

text \<open>The payload of the socket events \<open>sendMessage\<close> and \<open>deleteChat\<close>. The handlers
  destructure \<open>body\<close> and \<open>receiverId\<close>; \<open>data_senderId\<close> stands for a \<open>senderId\<close> property a
  client may add to the object it sends.\<close>

record data =
  data_body :: string
  data_receiverId :: objectId
  data_senderId :: "objectId option"

text \<open>A connected socket: \<open>socket.id\<close> and \<open>socket.handshake.auth.accesstoken\<close>.\<close>

record socket =
  sock_id :: socketId
  accesstoken :: token

datatype payload =
    Message string
  | SuccessMessage string chat
  | ReceiveMessage string

text \<open>\<open>Emit s name p\<close> is \<open>socket.emit(name, p)\<close> on the socket with id \<open>s\<close>;
  \<open>EmitTo s room name p\<close> is \<open>socket.to(room).emit(name, p)\<close>, where \<open>room\<close> is what the
  connection map returned (\<open>None\<close> when it returned \<open>undefined\<close>).\<close>

datatype event =
    Emit socketId string payload
  | EmitTo socketId "socketId option" string payload

text \<open>A pending \<open>setTimeout\<close> of \<open>deleteChatAfter24Hour\<close>: the time it is due (milliseconds), the
  socket it was armed on, and the two values its callback closes over.\<close>

record timer =
  due :: nat
  t_socket :: socketId
  t_loggedInUser_id :: "objectId option"
  t_receiverId :: objectId

text \<open>\<open>listeners\<close> holds the \<open>socket.on(name, ...)\<close> registrations made so far.\<close>

record state =
  users :: "user list"
  companies :: "company list"
  chats :: "chat list"
  blackListTokens :: "token_entry list"
  socketConnection :: "objectId option \<rightharpoonup> socketId"
  listeners :: "(socket \<times> string) list"
  timers :: "timer list"
  emitted :: "event list"
  next_oid :: objectId
  now :: nat

datatype error =
    JsonWebTokenError string
  | TokenExpiredError
  | TypeError string
  | ReferenceError string

datatype 'a promise = Resolved 'a | Rejected error

type_synonym response = "nat \<times> string"

section \<open>Token validation (\<open>Middlewares/authentication.middleware.js\<close>)\<close>

text \<open>
  \<open>jwt.verify\<close> belongs to the \<open>jsonwebtoken\<close> package. Its signature check and payload
  parsing is the parameter \<open>J\<close> (\<open>None\<close> when the token is malformed or not signed with
  the secret); around it the package refuses a missing token first and an expired one
  last (\<open>exp\<close> is in seconds, the clock in milliseconds).
\<close>

type_synonym jwt = "secret \<Rightarrow> token \<Rightarrow> decoded option"

definition jwt_verify :: "jwt \<Rightarrow> nat \<Rightarrow> token \<Rightarrow> secret \<Rightarrow> error + decoded" where
  "jwt_verify J clock tok k =
     (if tok = [] then Inl (JsonWebTokenError ''jwt must be provided'')
      else case J k tok of
        None \<Rightarrow> Inl (JsonWebTokenError ''invalid token'')
      | Some d \<Rightarrow> if d_exp d \<le> clock div 1000 then Inl TokenExpiredError else Inr d)"

definition BlackListTokens_findOne :: "token_entry list \<Rightarrow> string \<Rightarrow> token_entry option" where
  "BlackListTokens_findOne rows j = find (\<lambda>r. tokenId r = j) rows"

text \<open>\<open>User.findById\<close>, with the \<open>pre(/^find/)\<close> hook of the user schema, which adds
  \<open>isDeleted: false\<close> to the query.\<close>

definition User_findById :: "user list \<Rightarrow> objectId \<Rightarrow> user option" where
  "User_findById us i = find (\<lambda>u. u_id u = i \<and> isDeleted u = False) us"

text \<open>What \<open>validateUserToken\<close> returns: the user's document with the token's id and expiry,
  or the Express response object, which \<open>res.status(403).json(...)\<close> returns after sending.\<close>

datatype validated =
    LoggedInUser user token_entry
  | Res response

datatype express_res = ResObj

definition validateUserToken :: "jwt \<Rightarrow> state \<Rightarrow> token \<Rightarrow> express_res option \<Rightarrow> validated promise" where
  "validateUserToken J st tok res =
     (case jwt_verify J (now st) tok JWT_SECRET_LOGIN of
        Inl err \<Rightarrow> Rejected err
      | Inr decodedData \<Rightarrow>
          (case BlackListTokens_findOne (blackListTokens st) (jti decodedData) of
             Some isBlackListed \<Rightarrow>
               (case res of
                  None \<Rightarrow> Rejected (TypeError ''Cannot read properties of undefined (reading status)'')
                | Some r \<Rightarrow> Resolved (Res (403, ''Token blackklisted, please login again'')))
           | None \<Rightarrow>
               (case User_findById (users st) (d_id decodedData) of
                  None \<Rightarrow>
                    (case res of
                       None \<Rightarrow> Rejected (TypeError ''Cannot read properties of undefined (reading status)'')
                     | Some r \<Rightarrow> Resolved (Res (403, ''Please Signup'')))
                | Some u \<Rightarrow>
                    Resolved (LoggedInUser u
                      \<lparr>tokenId = jti decodedData, expierdAt = d_exp decodedData\<rparr>))))"

text \<open>
  \<open>authenticationMiddleware(socket = null)\<close>: a truthy argument is validated as a token, with
  no response object; otherwise the Express middleware is returned. A missing or empty token
  is falsy.
\<close>

datatype auth = Promise "validated promise" | Middleware

definition authenticationMiddleware :: "jwt \<Rightarrow> state \<Rightarrow> token \<Rightarrow> auth" where
  "authenticationMiddleware J st socket =
     (if socket \<noteq> [] then Promise (validateUserToken J st socket None) else Middleware)"

text \<open>
  The middleware itself, \<open>async (req, res, next)\<close>, applied to the \<open>token\<close> header. \<open>next\<close> is
  the rest of the route, run on \<open>req.loggedInUser\<close>. The result is the response the middleware
  sent, if any, and what \<open>next\<close> did, if it was called.
\<close>

definition sent_by :: "validated \<Rightarrow> response option" where
  "sent_by v = (case v of LoggedInUser u t \<Rightarrow> None | Res r \<Rightarrow> Some r)"

definition middleware :: "jwt \<Rightarrow> state \<Rightarrow> token \<Rightarrow> (validated \<Rightarrow> 'r) \<Rightarrow> response option \<times> 'r option" where
  "middleware J st tok next =
     (case validateUserToken J st tok (Some ResObj) of
        Resolved loggedInUser \<Rightarrow> (sent_by loggedInUser, Some (next loggedInUser))
      | Rejected err \<Rightarrow> (Some (500, ''Somthing wrong from authMiddleware''), None))"

text \<open>\<open>loggedInUser._id\<close>: the response object and the middleware function have no such property.\<close>

definition validated_id :: "validated \<Rightarrow> objectId option" where
  "validated_id v = (case v of LoggedInUser u t \<Rightarrow> Some (u_id u) | Res r \<Rightarrow> None)"

section \<open>Connection registry (\<open>Utils/socket.utils.js\<close>)\<close>

definition registerSocketId :: "jwt \<Rightarrow> state \<Rightarrow> token \<Rightarrow> socketId \<Rightarrow> state \<times> string promise" where
  "registerSocketId J st accessToken sid =
     (case authenticationMiddleware J st accessToken of
        Promise (Rejected err) \<Rightarrow> (st, Rejected err)
      | Promise (Resolved u) \<Rightarrow>
          (st\<lparr>socketConnection := (socketConnection st)(validated_id u \<mapsto> sid)\<rparr>,
           Resolved ''socket connected successfully'')
      | Middleware \<Rightarrow>
          (st\<lparr>socketConnection := (socketConnection st)(None \<mapsto> sid)\<rparr>,
           Resolved ''socket connected successfully''))"

definition removeSocket :: "jwt \<Rightarrow> state \<Rightarrow> socket \<Rightarrow> state \<times> string promise" where
  "removeSocket J st s =
     (case authenticationMiddleware J st (accesstoken s) of
        Promise (Rejected err) \<Rightarrow> (st, Rejected err)
      | Promise (Resolved u) \<Rightarrow>
          (st\<lparr>socketConnection := (socketConnection st)(validated_id u := None)\<rparr>,
           Resolved ''disConnected'')
      | Middleware \<Rightarrow>
          (st\<lparr>socketConnection := (socketConnection st)(None := None)\<rparr>,
           Resolved ''disConnected''))"

text \<open>
  The callback of \<open>io.on("connection", ...)\<close> in \<open>establishIoConnection\<close>. After
  \<open>registerSocketId\<close>, the calls \<open>sendMessageService(socket)\<close> and \<open>removeSocket(socket)\<close>
  attach the \<open>sendMessage\<close> and \<open>disconnect\<close> listeners. The fourth line calls
  \<open>deleteChatAfter24Hour\<close>, a name that \<open>socket.utils.js\<close> neither imports nor defines: the
  callback ends there with a ReferenceError, and \<open>socket.on("deleteChat", ...)\<close> is never
  reached.
\<close>

definition establishIoConnection :: "jwt \<Rightarrow> state \<Rightarrow> socket \<Rightarrow> state \<times> unit promise" where
  "establishIoConnection J st s =
     (case registerSocketId J st (accesstoken s) (sock_id s) of
        (st1, Rejected err) \<Rightarrow> (st1, Rejected err)
      | (st1, Resolved connected) \<Rightarrow>
          (st1\<lparr>listeners := listeners st1 @ [(s, ''sendMessage''), (s, ''disconnect'')]\<rparr>,
           Rejected (ReferenceError ''deleteChatAfter24Hour is not defined'')))"

definition listening :: "state \<Rightarrow> socket \<Rightarrow> string \<Rightarrow> bool" where
  "listening st s name = ((s, name) \<in> set (listeners st))"

section \<open>Conversation store (\<open>DB/models/chats.model.js\<close>, \<open>chat.service.js\<close>)\<close>

text \<open>
  The filter every chat query uses:
  \<open>$or: [{senderId: _id, receiverId}, {senderId: receiverId, receiverId: _id}]\<close>.
  An \<open>undefined\<close> value reaches the database as \<open>null\<close>, which matches an absent field.
\<close>

definition pair_filter :: "objectId option \<Rightarrow> objectId option \<Rightarrow> chat \<Rightarrow> bool" where
  "pair_filter a b c =
     ((chat_senderId c = a \<and> chat_receiverId c = b) \<or> (chat_senderId c = b \<and> chat_receiverId c = a))"

fun update_first :: "('a \<Rightarrow> bool) \<Rightarrow> ('a \<Rightarrow> 'a) \<Rightarrow> 'a list \<Rightarrow> 'a list" where
  "update_first P g [] = []"
| "update_first P g (x # xs) = (if P x then g x # xs else x # update_first P g xs)"

fun remove_first :: "('a \<Rightarrow> bool) \<Rightarrow> 'a list \<Rightarrow> 'a list" where
  "remove_first P [] = []"
| "remove_first P (x # xs) = (if P x then xs else x # remove_first P xs)"

text \<open>\<open>$addToSet: {messages: m}\<close>: appended at the end unless an equal element is there.\<close>

definition addToSet :: "message \<Rightarrow> chat \<Rightarrow> chat" where
  "addToSet m c = (if m \<in> set (messages c) then c else c\<lparr>messages := messages c @ [m]\<rparr>)"

definition Chat_findOne :: "chat list \<Rightarrow> (chat \<Rightarrow> bool) \<Rightarrow> chat option" where
  "Chat_findOne cs f = find f cs"

text \<open>\<open>findOneAndUpdate\<close> returns the document as it was before the update (no \<open>new: true\<close>).\<close>

definition Chat_findOneAndUpdate :: "chat list \<Rightarrow> (chat \<Rightarrow> bool) \<Rightarrow> message \<Rightarrow> chat option \<times> chat list" where
  "Chat_findOneAndUpdate cs f m = (find f cs, update_first f (addToSet m) cs)"

definition Chat_findOneAndDelete :: "chat list \<Rightarrow> (chat \<Rightarrow> bool) \<Rightarrow> chat option \<times> chat list" where
  "Chat_findOneAndDelete cs f = (find f cs, remove_first f cs)"

text \<open>
  A company document seen through a path of a query. The filter of \<open>sendMessageService\<close> is
  sent as it is written, so a path that no document has is \<open>Absent\<close> in every document.
  \<open>{path: v}\<close> matches a scalar equal to \<open>v\<close>, an array containing \<open>v\<close>, and an absent field
  when \<open>v\<close> is \<open>null\<close>.
\<close>

datatype field = Absent | Id objectId | Ids "objectId list"

definition company_field :: "company \<Rightarrow> string \<Rightarrow> field" where
  "company_field c p =
     (if p = ''_id'' then Id (c_id c)
      else if p = ''createdBy'' then Id (createdBy c)
      else if p = ''HRs'' then Ids (HRs c)
      else Absent)"

fun field_eq :: "field \<Rightarrow> objectId option \<Rightarrow> bool" where
  "field_eq Absent v = (v = None)"
| "field_eq (Id x) v = (v = Some x)"
| "field_eq (Ids xs) v = (case v of None \<Rightarrow> False | Some x \<Rightarrow> x \<in> set xs)"

text \<open>\<open>Company.findOne({$or: clauses})\<close>, with the \<open>pre(/^find/)\<close> hook of the company schema,
  which adds \<open>isDeleted: false\<close> unless the query has \<open>includeDeleted\<close>.\<close>

definition Company_findOne :: "company list \<Rightarrow> (string \<times> objectId option) list \<Rightarrow> company option" where
  "Company_findOne cs clauses =
     find (\<lambda>c. c_isDeleted c = False \<and> list_ex (\<lambda>(p, v). field_eq (company_field c p) v) clauses) cs"

text \<open>\<open>loggedInUser._id\<close> in the socket handlers, which await \<open>authenticationMiddleware\<close>.\<close>

definition auth_id :: "auth \<Rightarrow> objectId option" where
  "auth_id a = (case a of Promise (Resolved v) \<Rightarrow> validated_id v | Promise (Rejected err) \<Rightarrow> None | Middleware \<Rightarrow> None)"

text \<open>
  The body of the \<open>sendMessage\<close> listener once \<open>loggedInUser\<close> is known. Mongoose casts the
  message of the update to a subdocument, which gives it a new \<open>_id\<close> and the default
  \<open>sentAt\<close>; \<open>new Chat\<close> does the same for the document and its message. \<open>next_oid\<close> is
  the ObjectId generator.
\<close>

definition sendMessage :: "state \<Rightarrow> socket \<Rightarrow> objectId option \<Rightarrow> data \<Rightarrow> state" where
  "sendMessage st s loggedInUser_id dat =
     (let body' = data_body dat;
          receiverId = data_receiverId dat;
          upd = \<lparr>m_id = next_oid st, body = body', senderId = loggedInUser_id, sentAt = now st\<rparr>
      in case Chat_findOneAndUpdate (chats st) (pair_filter loggedInUser_id (Some receiverId)) upd of
           (Some chat, cs) \<Rightarrow>
             st\<lparr>chats := cs, next_oid := next_oid st + 1,
                emitted := emitted st @
                  [Emit (sock_id s) ''successMessage'' (SuccessMessage body' chat),
                   EmitTo (sock_id s) (socketConnection st (Some receiverId)) ''receiveMessage''
                     (ReceiveMessage body')]\<rparr>
         | (None, cs) \<Rightarrow>
             (case Company_findOne (companies st)
                     [(''cretaedBy'', loggedInUser_id), (''HRs'', loggedInUser_id)] of
                None \<Rightarrow>
                  st\<lparr>chats := cs, next_oid := next_oid st + 1,
                     emitted := emitted st @
                       [Emit (sock_id s) ''error'' (Message ''Only Hr or Company owner start chat'')]\<rparr>
              | Some user \<Rightarrow>
                  (let chat = \<lparr>chat_id = next_oid st + 1, chat_senderId = loggedInUser_id,
                                chat_receiverId = Some receiverId,
                                messages = [\<lparr>m_id = next_oid st + 2, body = body',
                                             senderId = loggedInUser_id, sentAt = now st\<rparr>]\<rparr>
                   in st\<lparr>chats := cs @ [chat], next_oid := next_oid st + 3,
                         emitted := emitted st @
                           [Emit (sock_id s) ''successMessage'' (SuccessMessage body' chat),
                            EmitTo (sock_id s) (socketConnection st (Some receiverId)) ''receiveMessage''
                              (ReceiveMessage body')]\<rparr>)))"

text \<open>The \<open>sendMessage\<close> listener that \<open>sendMessageService(socket)\<close> attaches: a rejected
  authentication rejects the listener before anything is done.\<close>

definition sendMessageService :: "jwt \<Rightarrow> state \<Rightarrow> socket \<Rightarrow> data \<Rightarrow> state" where
  "sendMessageService J st s dat =
     (case authenticationMiddleware J st (accesstoken s) of
        Promise (Rejected err) \<Rightarrow> st
      | loggedInUser \<Rightarrow> sendMessage st s (auth_id loggedInUser) dat)"

text \<open>
  \<open>populate\<close> replaces a reference by the user it finds (through the same \<open>find\<close> hook) or
  by \<open>null\<close>. The projection \<open>username profilePicture\<close> names no stored path of the user
  schema, so of the stored fields only \<open>_id\<close> is left.
\<close>

definition populate_ref :: "user list \<Rightarrow> objectId option \<Rightarrow> objectId option" where
  "populate_ref us r = (case r of None \<Rightarrow> None | Some i \<Rightarrow> map_option u_id (User_findById us i))"

definition populate :: "user list \<Rightarrow> chat \<Rightarrow> chat" where
  "populate us c =
     c\<lparr>chat_senderId := populate_ref us (chat_senderId c),
       chat_receiverId := populate_ref us (chat_receiverId c),
       messages := map (\<lambda>m. m\<lparr>senderId := populate_ref us (senderId m)\<rparr>) (messages c)\<rparr>"

definition getChatServices :: "state \<Rightarrow> validated \<Rightarrow> objectId \<Rightarrow> nat \<times> string \<times> chat option" where
  "getChatServices st loggedInUser receiverId =
     (201, ''Chat history fetched successfully'',
      map_option (populate (users st))
        (Chat_findOne (chats st) (pair_filter (validated_id loggedInUser) (Some receiverId))))"

definition deleteChatHistoryServicve :: "state \<Rightarrow> validated \<Rightarrow> objectId \<Rightarrow> state \<times> response" where
  "deleteChatHistoryServicve st loggedInUser receiverId =
     (st\<lparr>chats := snd (Chat_findOneAndDelete (chats st)
                          (pair_filter (validated_id loggedInUser) (Some receiverId)))\<rparr>,
      (201, ''Chat history cleared''))"

section \<open>Deferred deletion (\<open>deleteChatAfter24Hour\<close>)\<close>

text \<open>The \<open>deleteChat\<close> listener that \<open>deleteChatAfter24Hour(socket)\<close> of \<open>chat.service.js\<close>
  would attach: it arms a timer and does nothing else.\<close>

definition deleteChatAfter24Hour :: "jwt \<Rightarrow> state \<Rightarrow> socket \<Rightarrow> data \<Rightarrow> state" where
  "deleteChatAfter24Hour J st s dat =
     (case authenticationMiddleware J st (accesstoken s) of
        Promise (Rejected err) \<Rightarrow> st
      | loggedInUser \<Rightarrow>
          st\<lparr>timers := timers st @
               [\<lparr>due = now st + 24 * 60 * 60 * 1000, t_socket = sock_id s,
                 t_loggedInUser_id = auth_id loggedInUser, t_receiverId = data_receiverId dat\<rparr>]\<rparr>)"

text \<open>The callback of the timer. \<open>loggedInUser._id.toString()\<close> throws on an \<open>undefined\<close> id,
  after the deletion and before the two emits.\<close>

definition timeout_callback :: "timer \<Rightarrow> state \<Rightarrow> state" where
  "timeout_callback tm st =
     (let st1 = st\<lparr>chats := snd (Chat_findOneAndDelete (chats st)
                        (pair_filter (t_loggedInUser_id tm) (Some (t_receiverId tm))))\<rparr>
      in case t_loggedInUser_id tm of
           None \<Rightarrow> st1
         | Some i \<Rightarrow>
             st1\<lparr>emitted := emitted st @
               [EmitTo (t_socket tm) (socketConnection st (Some (t_receiverId tm))) ''chatDeleted''
                  (Message ''Chat history deleted after 24 hours''),
                EmitTo (t_socket tm) (socketConnection st (Some i)) ''chatDeleted''
                  (Message ''Chat history deleted after 24 hours'')]\<rparr>)"

text \<open>
  The state at clock time \<open>t\<close>, once the event loop has run every callback that is due by
  then and nothing else has happened. The pending timers are in the order they were armed,
  which is the order they are due, since all have the same delay.
\<close>

definition advance :: "state \<Rightarrow> nat \<Rightarrow> state" where
  "advance st t =
     (if t < now st then st
      else fold timeout_callback (filter (\<lambda>tm. due tm \<le> t) (timers st))
             (st\<lparr>now := t, timers := filter (\<lambda>tm. \<not> due tm \<le> t) (timers st)\<rparr>))"

section \<open>Sign-out and soft deletion (\<open>auth.service.js\<close>, \<open>profile.service.js\<close>)\<close>

definition verifyToken :: "jwt \<Rightarrow> nat \<Rightarrow> token \<Rightarrow> secret \<Rightarrow> error + decoded" where
  "verifyToken J clock tok secretKey = jwt_verify J clock tok secretKey"

definition signOutService :: "jwt \<Rightarrow> state \<Rightarrow> token \<Rightarrow> token \<Rightarrow> state \<times> response promise" where
  "signOutService J st tok refreshtoken =
     (case verifyToken J (now st) tok JWT_SECRET_LOGIN of
        Inl err \<Rightarrow> (st, Rejected err)
      | Inr decodedToken \<Rightarrow>
          (case verifyToken J (now st) refreshtoken JWT_SECRET_REFRESH of
             Inl err \<Rightarrow> (st, Rejected err)
           | Inr decodedRefreshToken \<Rightarrow>
               (st\<lparr>blackListTokens := blackListTokens st @
                     [\<lparr>tokenId = jti decodedToken, expierdAt = d_exp decodedToken\<rparr>,
                      \<lparr>tokenId = jti decodedRefreshToken, expierdAt = d_exp decodedRefreshToken\<rparr>]\<rparr>,
                Resolved (201, ''Logged out Successfully''))))"

text \<open>
  \<open>generateToken\<close> is \<open>jwt.sign\<close>, the parameter \<open>S\<close>: the public claim \<open>_id\<close>, the token
  id and the lifetime in seconds go in, the token comes out. \<open>refreshTokenServices\<close> is
  given the id that \<open>nanoid(5)\<close> draws and the configured lifetime
  \<open>ACCESS_TOKEN_EXPIRATION_TIME\<close>. It reads no collection and writes none. Its answer is
  the status, the message and the new access token.
\<close>

type_synonym signer = "secret \<Rightarrow> decoded \<Rightarrow> token"

definition generateToken :: "signer \<Rightarrow> nat \<Rightarrow> objectId \<Rightarrow> secret \<Rightarrow> nat \<Rightarrow> string \<Rightarrow> token" where
  "generateToken S clock i secretKey expiresIn jwtid =
     S secretKey \<lparr>d_id = i, jti = jwtid, d_exp = clock div 1000 + expiresIn\<rparr>"

definition refreshTokenServices ::
    "jwt \<Rightarrow> signer \<Rightarrow> state \<Rightarrow> token \<Rightarrow> string \<Rightarrow> nat \<Rightarrow> (nat \<times> string \<times> token option) promise" where
  "refreshTokenServices J S st refreshtoken nanoid ACCESS_TOKEN_EXPIRATION_TIME =
     (if refreshtoken = [] then Resolved (401, ''No refresh token provided'', None)
      else case verifyToken J (now st) refreshtoken JWT_SECRET_REFRESH of
        Inl err \<Rightarrow> Rejected err
      | Inr decodedData \<Rightarrow>
          Resolved (201, ''Token Refreshed Success'',
            Some (generateToken S (now st) (d_id decodedData) JWT_SECRET_LOGIN
                    ACCESS_TOKEN_EXPIRATION_TIME nanoid)))"

text \<open>\<open>User.findByIdAndUpdate(_id, {isDeleted: true, ...})\<close>, through the \<open>find\<close> hook. No
  document has a \<open>null\<close> id.\<close>

definition softDeleteAccountService :: "state \<Rightarrow> validated \<Rightarrow> state \<times> response" where
  "softDeleteAccountService st loggedInUser =
     ((case validated_id loggedInUser of
         None \<Rightarrow> st
       | Some i \<Rightarrow>
           st\<lparr>users := update_first (\<lambda>u. u_id u = i \<and> isDeleted u = False)
                          (\<lambda>u. u\<lparr>isDeleted := True\<rparr>) (users st)\<rparr>),
      (200, ''Account soft deleted successfully''))"

section \<open>The server as a transition system\<close>

text \<open>
  One request or event at a time, as the single-threaded event loop runs them. An event
  that a client emits on a socket runs the listener attached for it, if there is one, and
  is dropped otherwise; a disconnected socket takes its listeners with it. The HTTP routes
  of \<open>user.controller.js\<close> run their service behind the middleware; \<open>/auth/signout\<close> and
  \<open>/auth/refresh-token\<close> have no middleware, and the refresh service changes nothing.
\<close>

datatype request =
    Connection socket
  | Disconnect socket
  | SendMessage socket data
  | DeleteChat socket data
  | SignOut token token
  | RefreshToken token
  | GetChatHistory token objectId
  | DeleteChatHistory token objectId
  | SoftDeleteAccount token
  | Elapse nat

definition route :: "jwt \<Rightarrow> state \<Rightarrow> token \<Rightarrow> (validated \<Rightarrow> state) \<Rightarrow> state" where
  "route J st tok service = (case snd (middleware J st tok service) of None \<Rightarrow> st | Some st' \<Rightarrow> st')"

definition disconnected :: "state \<Rightarrow> socket \<Rightarrow> state" where
  "disconnected st s = st\<lparr>listeners := filter (\<lambda>l. fst l \<noteq> s) (listeners st)\<rparr>"

fun step :: "jwt \<Rightarrow> state \<Rightarrow> request \<Rightarrow> state" where
  "step J st (Connection s) = fst (establishIoConnection J st s)"
| "step J st (Disconnect s) =
     disconnected (if listening st s ''disconnect'' then fst (removeSocket J st s) else st) s"
| "step J st (SendMessage s dat) =
     (if listening st s ''sendMessage'' then sendMessageService J st s dat else st)"
| "step J st (DeleteChat s dat) =
     (if listening st s ''deleteChat'' then deleteChatAfter24Hour J st s dat else st)"
| "step J st (SignOut tok refreshtoken) = fst (signOutService J st tok refreshtoken)"
| "step J st (RefreshToken refreshtoken) = st"
| "step J st (GetChatHistory tok receiverId) = route J st tok (\<lambda>l. st)"
| "step J st (DeleteChatHistory tok receiverId) =
     route J st tok (\<lambda>l. fst (deleteChatHistoryServicve st l receiverId))"
| "step J st (SoftDeleteAccount tok) = route J st tok (\<lambda>l. fst (softDeleteAccountService st l))"
| "step J st (Elapse n) = advance st (now st + n)"

definition run :: "jwt \<Rightarrow> state \<Rightarrow> request list \<Rightarrow> state" where
  "run J st rs = foldl (step J) st rs"

section \<open>A small deployment, for concrete runs\<close>

text \<open>Three accounts (the third soft-deleted) and the tokens issued to them.\<close>

definition J0 :: jwt where
  "J0 k tok =
     (if k = JWT_SECRET_LOGIN \<and> tok = ''access-1'' then Some \<lparr>d_id = 1, jti = ''a1'', d_exp = 5000\<rparr>
      else if k = JWT_SECRET_REFRESH \<and> tok = ''refresh-1'' then Some \<lparr>d_id = 1, jti = ''r1'', d_exp = 9000\<rparr>
      else if k = JWT_SECRET_LOGIN \<and> tok = ''access-2'' then Some \<lparr>d_id = 2, jti = ''a2'', d_exp = 5000\<rparr>
      else if k = JWT_SECRET_LOGIN \<and> tok = ''access-3'' then Some \<lparr>d_id = 3, jti = ''a3'', d_exp = 5000\<rparr>
      else None)"

definition user1 :: user where
  "user1 = \<lparr>u_id = 1, firstName = ''Mona'', lastName = ''Adel'', isDeleted = False\<rparr>"

definition user2 :: user where
  "user2 = \<lparr>u_id = 2, firstName = ''Omar'', lastName = ''Said'', isDeleted = False\<rparr>"

definition user3 :: user where
  "user3 = \<lparr>u_id = 3, firstName = ''Nour'', lastName = ''Zaki'', isDeleted = True\<rparr>"

definition st0 :: state where
  "st0 = \<lparr>users = [user1, user2, user3], companies = [], chats = [],
          blackListTokens = [], socketConnection = Map.empty, listeners = [], timers = [],
          emitted = [],
          next_oid = 100, now = 0\<rparr>"

text \<open>The account \<open>i\<close> has been soft-deleted: every user document with that id carries the flag.\<close>

definition soft_deleted :: "objectId \<Rightarrow> user list \<Rightarrow> bool" where
  "soft_deleted i us = list_all (\<lambda>u. u_id u = i \<longrightarrow> isDeleted u) us"

text \<open>A conversation between accounts 1 and 2, and the sockets of the two.\<close>

definition chat12 :: chat where
  "chat12 = \<lparr>chat_id = 10, chat_senderId = Some 1, chat_receiverId = Some 2,
             messages = [\<lparr>m_id = 11, body = ''Hello'', senderId = Some 1, sentAt = 0\<rparr>]\<rparr>"

definition st_chat :: state where
  "st_chat = st0\<lparr>chats := [chat12]\<rparr>"

definition sock1 :: socket where
  "sock1 = \<lparr>sock_id = ''s1'', accesstoken = ''access-1''\<rparr>"

definition sock2 :: socket where
  "sock2 = \<lparr>sock_id = ''s2'', accesstoken = ''access-2''\<rparr>"

text \<open>Two companies with account 1 as their only HR, one of them soft-deleted; account 2
  created the live one. And a first message from its sender to account 2 or 1.\<close>

definition company_deleted :: company where
  "company_deleted = \<lparr>c_id = 50, createdBy = 3, HRs = [1], c_isDeleted = True\<rparr>"

definition company_live :: company where
  "company_live = \<lparr>c_id = 51, createdBy = 2, HRs = [1], c_isDeleted = False\<rparr>"

definition st_hr_deleted :: state where
  "st_hr_deleted = st0\<lparr>companies := [company_deleted]\<rparr>"

definition st_hr :: state where
  "st_hr = st0\<lparr>companies := [company_live]\<rparr>"

definition hello_to_2 :: data where
  "hello_to_2 = \<lparr>data_body = ''Hello'', data_receiverId = 2, data_senderId = None\<rparr>"

definition hello_to_1 :: data where
  "hello_to_1 = \<lparr>data_body = ''Hello'', data_receiverId = 1, data_senderId = None\<rparr>"

text \<open>Every stored message got its \<open>_id\<close> from the generator, which never repeats one.\<close>

definition oid_fresh :: "state \<Rightarrow> bool" where
  "oid_fresh st = list_all (\<lambda>c. list_all (\<lambda>m. m_id m < next_oid st) (messages c)) (chats st)"

text \<open>The message list a fetch shows, empty when the answer carries no chat.\<close>

definition history :: "nat \<times> string \<times> chat option \<Rightarrow> message list" where
  "history answer = (case snd (snd answer) of None \<Rightarrow> [] | Some c \<Rightarrow> messages c)"

text \<open>The signer that renews the access token of account 1, the verifier that knows the
  renewed token, and the state after account 1 signed out.\<close>

definition J1 :: jwt where
  "J1 k tok =
     (if k = JWT_SECRET_LOGIN \<and> tok = ''access-1-renewed''
      then Some \<lparr>d_id = 1, jti = ''n1'', d_exp = 3601\<rparr>
      else J0 k tok)"

definition S1 :: signer where
  "S1 k d =
     (if k = JWT_SECRET_LOGIN \<and> d = \<lparr>d_id = 1, jti = ''n1'', d_exp = 3601\<rparr>
      then ''access-1-renewed'' else [])"

definition st_signed_out :: state where
  "st_signed_out = st0\<lparr>blackListTokens :=
      [\<lparr>tokenId = ''a1'', expierdAt = 5000\<rparr>, \<lparr>tokenId = ''r1'', expierdAt = 9000\<rparr>]\<rparr>"

text \<open>No socket has a \<open>deleteChat\<close> listener.\<close>

definition no_deleteChat_listener :: "state \<Rightarrow> bool" where
  "no_deleteChat_listener st = list_all (\<lambda>l. snd l \<noteq> ''deleteChat'') (listeners st)"

section \<open>Authentication: properties\<close>

lemma validateUserToken_blacklisted:
  assumes "jwt_verify J (now st) tok JWT_SECRET_LOGIN = Inr d"
    and "BlackListTokens_findOne (blackListTokens st) (jti d) = Some row"
  shows "validateUserToken J st tok (Some ResObj)
           = Resolved (Res (403, ''Token blackklisted, please login again''))"
    and "validateUserToken J st tok None
           = Rejected (TypeError ''Cannot read properties of undefined (reading status)'')"
  using assms by (simp_all add: validateUserToken_def)

lemma validateUserToken_no_user:
  assumes "jwt_verify J (now st) tok JWT_SECRET_LOGIN = Inr d"
    and "BlackListTokens_findOne (blackListTokens st) (jti d) = None"
    and "User_findById (users st) (d_id d) = None"
  shows "validateUserToken J st tok (Some ResObj) = Resolved (Res (403, ''Please Signup''))"
    and "validateUserToken J st tok None
           = Rejected (TypeError ''Cannot read properties of undefined (reading status)'')"
  using assms by (simp_all add: validateUserToken_def)

text \<open>
  C3. In the HTTP middleware, a token that verifies but is blacklisted, or whose subject is
  not found, gets the 403 response and still \<open>next()\<close> is called: the rest of the route runs
  with \<open>req.loggedInUser\<close> bound to the response object, which carries no identity.
\<close>

theorem middleware_403_calls_next:
  assumes "jwt_verify J (now st) tok JWT_SECRET_LOGIN = Inr d"
    and "BlackListTokens_findOne (blackListTokens st) (jti d) = None
           \<longrightarrow> User_findById (users st) (d_id d) = None"
  shows "let r = (403, if BlackListTokens_findOne (blackListTokens st) (jti d) = None
                       then ''Please Signup'' else ''Token blackklisted, please login again'')
         in middleware J st tok next = (Some r, Some (next (Res r))) \<and> validated_id (Res r) = None"
  using assms
  by (auto simp add: middleware_def validateUserToken_def sent_by_def validated_id_def Let_def
        split: option.splits)

theorem middleware_403_calls_next_witness:
  "jwt_verify J0 (now st0) ''access-3'' JWT_SECRET_LOGIN = Inr \<lparr>d_id = 3, jti = ''a3'', d_exp = 5000\<rparr>
   \<and> User_findById (users st0) 3 = None
   \<and> middleware J0 st0 ''access-3'' validated_id = (Some (403, ''Please Signup''), Some None)"
  using middleware_403_calls_next [of J0 st0 "''access-3''" "\<lparr>d_id = 3, jti = ''a3'', d_exp = 5000\<rparr>" validated_id]
  by (simp add: jwt_verify_def J0_def st0_def User_findById_def BlackListTokens_findOne_def
        user1_def user2_def user3_def validated_id_def)

text \<open>
  C2. The two transports do not decide alike on the empty token: the HTTP middleware
  answers 500 and does not call \<open>next()\<close>, while the socket handshake is not validated at
  all: \<open>authenticationMiddleware\<close> returns the middleware function, and
  \<open>registerSocketId\<close> binds the socket (under the key \<open>undefined\<close>) and reports success.
\<close>

theorem empty_token_transports_disagree:
  "middleware J st [] next = (Some (500, ''Somthing wrong from authMiddleware''), None)
   \<and> registerSocketId J st [] sid
       = (st\<lparr>socketConnection := (socketConnection st)(None \<mapsto> sid)\<rparr>,
          Resolved ''socket connected successfully'')"
  by (simp add: middleware_def validateUserToken_def jwt_verify_def registerSocketId_def
        authenticationMiddleware_def)

text \<open>On a token that is not empty the two call sites resolve the same identity, or none.\<close>

lemma nonempty_token_same_identity:
  assumes "tok \<noteq> []"
  shows "(authenticationMiddleware J st tok = Promise (Resolved (LoggedInUser u t)))
         = (validateUserToken J st tok (Some ResObj) = Resolved (LoggedInUser u t))"
  using assms
  by (auto simp add: authenticationMiddleware_def validateUserToken_def
        split: sum.splits option.splits)

text \<open>The two call sites part ways on a blacklisted token as well: the HTTP route goes on
  to its service, with the response object as the user; the handshake is rejected.\<close>

lemma blacklisted_token_transports_differ:
  assumes "jwt_verify J (now st) tok JWT_SECRET_LOGIN = Inr d"
    and "BlackListTokens_findOne (blackListTokens st) (jti d) = Some row"
  shows "snd (middleware J st tok next)
           = Some (next (Res (403, ''Token blackklisted, please login again'')))"
    and "registerSocketId J st tok sid
           = (st, Rejected (TypeError ''Cannot read properties of undefined (reading status)''))"
proof -
  from assms(1) have ne: "tok \<noteq> []"
    by (auto simp add: jwt_verify_def split: if_splits)
  show "snd (middleware J st tok next)
           = Some (next (Res (403, ''Token blackklisted, please login again'')))"
    by (simp add: middleware_def validateUserToken_blacklisted [OF assms])
  show "registerSocketId J st tok sid
           = (st, Rejected (TypeError ''Cannot read properties of undefined (reading status)''))"
    using ne
    by (simp add: registerSocketId_def authenticationMiddleware_def
          validateUserToken_blacklisted [OF assms])
qed

section \<open>The blacklist only grows; the deleted flag is never cleared\<close>

lemma fold_timeout_blackList:
  "blackListTokens (fold timeout_callback tms s) = blackListTokens s"
  by (induction tms arbitrary: s) (auto simp add: timeout_callback_def Let_def split: option.splits)

lemma fold_timeout_users:
  "users (fold timeout_callback tms s) = users s"
  by (induction tms arbitrary: s) (auto simp add: timeout_callback_def Let_def split: option.splits)

lemma sendMessage_blackList: "blackListTokens (sendMessage st s i dat) = blackListTokens st"
  by (simp add: sendMessage_def Let_def split: prod.splits option.splits)

lemma sendMessage_users: "users (sendMessage st s i dat) = users st"
  by (simp add: sendMessage_def Let_def split: prod.splits option.splits)

lemma step_blackList: "set (blackListTokens st) \<subseteq> set (blackListTokens (step J st r))"
proof (cases r)
  case (SignOut tok refreshtoken)
  then show ?thesis
    by (auto simp add: signOutService_def split: sum.splits)
next
  case (Elapse n)
  then show ?thesis by (simp add: advance_def fold_timeout_blackList)
qed (auto simp add: establishIoConnection_def registerSocketId_def removeSocket_def disconnected_def
       sendMessageService_def sendMessage_blackList deleteChatAfter24Hour_def route_def
       middleware_def deleteChatHistoryServicve_def softDeleteAccountService_def
       split: auth.splits promise.splits option.splits)

lemma run_blackList: "set (blackListTokens st) \<subseteq> set (blackListTokens (run J st rs))"
  unfolding run_def
proof (induction rs arbitrary: st)
  case Nil
  show ?case by simp
next
  case (Cons r rs)
  have "set (blackListTokens st) \<subseteq> set (blackListTokens (step J st r))"
    by (rule step_blackList)
  also have "\<dots> \<subseteq> set (blackListTokens (foldl (step J) (step J st r) rs))"
    by (rule Cons.IH)
  finally show ?case by simp
qed

lemma update_first_soft_deleted:
  "soft_deleted i us \<Longrightarrow> soft_deleted i (update_first P (\<lambda>u. u\<lparr>isDeleted := True\<rparr>) us)"
  by (induction us) (auto simp add: soft_deleted_def)

lemma step_soft_deleted: "soft_deleted i (users st) \<Longrightarrow> soft_deleted i (users (step J st r))"
proof (cases r)
  case (Elapse n)
  assume "soft_deleted i (users st)"
  with Elapse show ?thesis by (simp add: advance_def fold_timeout_users)
next
  case (SoftDeleteAccount tok)
  assume "soft_deleted i (users st)"
  with SoftDeleteAccount show ?thesis
    by (auto simp add: route_def middleware_def softDeleteAccountService_def
          update_first_soft_deleted split: promise.splits option.splits)
qed (auto simp add: establishIoConnection_def registerSocketId_def removeSocket_def disconnected_def
       sendMessageService_def sendMessage_users deleteChatAfter24Hour_def route_def
       middleware_def deleteChatHistoryServicve_def signOutService_def
       split: auth.splits promise.splits option.splits sum.splits)

lemma run_soft_deleted: "soft_deleted i (users st) \<Longrightarrow> soft_deleted i (users (run J st rs))"
  unfolding run_def
  by (induction rs arbitrary: st) (simp_all add: step_soft_deleted)

lemma soft_deleted_findById: "soft_deleted i us \<Longrightarrow> User_findById us i = None"
  by (auto simp add: soft_deleted_def User_findById_def find_None_iff list_all_iff)

lemma findById_id: "User_findById us i = Some u \<Longrightarrow> u_id u = i"
  by (auto simp add: User_findById_def find_Some_iff)

text \<open>
  C10. The \<open>find\<close> hook hides soft-deleted users from \<open>User.findById\<close>, and nothing the
  server does clears the flag. So once an account is soft-deleted, after any sequence of
  requests no token resolves to it, and its own token, still valid and not blacklisted, is
  answered as an unknown identity: 403 \<open>Please Signup\<close> over HTTP, a rejected handshake
  over the socket.
\<close>

theorem soft_deleted_never_authenticates:
  assumes del: "soft_deleted i (users st)"
    and st2: "st2 = run J st rs"
  shows "(\<forall>tok' res u t. validateUserToken J st2 tok' res = Resolved (LoggedInUser u t) \<longrightarrow> u_id u \<noteq> i)
       \<and> (jwt_verify J (now st2) tok JWT_SECRET_LOGIN = Inr d \<and> d_id d = i
            \<and> BlackListTokens_findOne (blackListTokens st2) (jti d) = None
          \<longrightarrow> validateUserToken J st2 tok (Some ResObj) = Resolved (Res (403, ''Please Signup''))
            \<and> fst (middleware J st2 tok next) = Some (403, ''Please Signup'')
            \<and> authenticationMiddleware J st2 tok
                = Promise (Rejected (TypeError ''Cannot read properties of undefined (reading status)'')))"
proof -
  have none: "User_findById (users st2) i = None"
    using del st2 by (simp add: run_soft_deleted soft_deleted_findById)
  have a: "\<forall>tok' res u t. validateUserToken J st2 tok' res = Resolved (LoggedInUser u t) \<longrightarrow> u_id u \<noteq> i"
  proof (intro allI impI)
    fix tok' res u t
    assume "validateUserToken J st2 tok' res = Resolved (LoggedInUser u t)"
    then obtain d' :: decoded where "User_findById (users st2) (d_id d') = Some u"
      by (auto simp add: validateUserToken_def split: sum.splits option.splits)
    then have "d_id d' = u_id u" by (simp add: findById_id)
    with none \<open>User_findById (users st2) (d_id d') = Some u\<close> show "u_id u \<noteq> i"
      by auto
  qed
  have b: "validateUserToken J st2 tok (Some ResObj) = Resolved (Res (403, ''Please Signup''))
            \<and> fst (middleware J st2 tok next) = Some (403, ''Please Signup'')
            \<and> authenticationMiddleware J st2 tok
                = Promise (Rejected (TypeError ''Cannot read properties of undefined (reading status)''))"
    if v: "jwt_verify J (now st2) tok JWT_SECRET_LOGIN = Inr d" and i: "d_id d = i"
      and nb: "BlackListTokens_findOne (blackListTokens st2) (jti d) = None"
  proof -
    have ne: "tok \<noteq> []" using v by (auto simp add: jwt_verify_def split: if_splits)
    from v nb none i show ?thesis
      using validateUserToken_no_user [of J st2 tok d] ne
      by (simp add: middleware_def sent_by_def authenticationMiddleware_def)
  qed
  from a b show ?thesis by blast
qed

theorem soft_deleted_never_authenticates_witness:
  "soft_deleted 1 (users (step J0 st0 (SoftDeleteAccount ''access-1'')))
   \<and> validateUserToken J0 (run J0 (step J0 st0 (SoftDeleteAccount ''access-1'')) [Elapse 1000, Connection \<lparr>sock_id = ''s1'', accesstoken = ''access-1''\<rparr>])
        ''access-1'' (Some ResObj) = Resolved (Res (403, ''Please Signup''))
   \<and> authenticationMiddleware J0 (run J0 (step J0 st0 (SoftDeleteAccount ''access-1'')) [Elapse 1000, Connection \<lparr>sock_id = ''s1'', accesstoken = ''access-1''\<rparr>]) ''access-1''
       = Promise (Rejected (TypeError ''Cannot read properties of undefined (reading status)''))"
proof -
  let ?st = "step J0 st0 (SoftDeleteAccount ''access-1'')"
  let ?rs = "[Elapse 1000, Connection \<lparr>sock_id = ''s1'', accesstoken = ''access-1''\<rparr>]"
  have us: "users ?st = [user1\<lparr>isDeleted := True\<rparr>, user2, user3]"
    by (simp add: route_def middleware_def validateUserToken_def jwt_verify_def J0_def st0_def
          BlackListTokens_findOne_def User_findById_def user1_def user2_def user3_def
          softDeleteAccountService_def validated_id_def)
  have del: "soft_deleted 1 (users ?st)"
    unfolding us by (simp add: soft_deleted_def user1_def user2_def user3_def)
  have bl: "blackListTokens (run J0 ?st ?rs) = []"
    by (simp add: run_def route_def middleware_def validateUserToken_def jwt_verify_def J0_def st0_def
          BlackListTokens_findOne_def User_findById_def user1_def user2_def user3_def
          softDeleteAccountService_def validated_id_def advance_def registerSocketId_def
          authenticationMiddleware_def establishIoConnection_def)
  have nw: "now (run J0 ?st ?rs) = 1000"
    by (simp add: run_def route_def middleware_def validateUserToken_def jwt_verify_def J0_def st0_def
          BlackListTokens_findOne_def User_findById_def user1_def user2_def user3_def
          softDeleteAccountService_def validated_id_def advance_def registerSocketId_def
          authenticationMiddleware_def establishIoConnection_def)
  have v: "jwt_verify J0 (now (run J0 ?st ?rs)) ''access-1'' JWT_SECRET_LOGIN = Inr \<lparr>d_id = 1, jti = ''a1'', d_exp = 5000\<rparr>"
    unfolding nw by (simp add: jwt_verify_def J0_def)
  from soft_deleted_never_authenticates [OF del refl, of J0 ?rs "''access-1''" "\<lparr>d_id = 1, jti = ''a1'', d_exp = 5000\<rparr>" id]
    del v bl
  show ?thesis by (simp add: BlackListTokens_findOne_def)
qed

text \<open>
  The access token of a sign-out. A successful sign-out appends two rows to the blacklist,
  one for the access token and one for the refresh token, each with the token's id and
  expiry. No request removes a row, so after any sequence of requests the access token is
  never resolved to a user again: while it has not expired it is answered as blacklisted
  (403 over HTTP, a rejected promise over the socket), and afterwards as expired.
\<close>

lemma revoked_access_token_never_accepted:
  assumes out: "signOutService J st tok refreshtoken = (st1, Resolved resp)"
    and st2: "st2 = run J st1 rs"
  shows "\<exists>d dr. J JWT_SECRET_LOGIN tok = Some d \<and> J JWT_SECRET_REFRESH refreshtoken = Some dr
          \<and> blackListTokens st1 = blackListTokens st @
                [\<lparr>tokenId = jti d, expierdAt = d_exp d\<rparr>, \<lparr>tokenId = jti dr, expierdAt = d_exp dr\<rparr>]
          \<and> (\<forall>res u t. validateUserToken J st2 tok res \<noteq> Resolved (LoggedInUser u t))
          \<and> validateUserToken J st2 tok (Some ResObj)
              = (if d_exp d \<le> now st2 div 1000 then Rejected TokenExpiredError
                 else Resolved (Res (403, ''Token blackklisted, please login again'')))
          \<and> fst (middleware J st2 tok next)
              = Some (if d_exp d \<le> now st2 div 1000 then (500, ''Somthing wrong from authMiddleware'')
                      else (403, ''Token blackklisted, please login again''))
          \<and> authenticationMiddleware J st2 tok
              = Promise (Rejected (if d_exp d \<le> now st2 div 1000 then TokenExpiredError
                 else TypeError ''Cannot read properties of undefined (reading status)''))"
proof -
  from out obtain d dr where
    v: "verifyToken J (now st) tok JWT_SECRET_LOGIN = Inr d"
    and vr: "verifyToken J (now st) refreshtoken JWT_SECRET_REFRESH = Inr dr"
    and st1: "st1 = st\<lparr>blackListTokens := blackListTokens st @
                [\<lparr>tokenId = jti d, expierdAt = d_exp d\<rparr>, \<lparr>tokenId = jti dr, expierdAt = d_exp dr\<rparr>]\<rparr>"
    by (auto simp add: signOutService_def split: sum.splits)
  from v have ne: "tok \<noteq> []" and Jd: "J JWT_SECRET_LOGIN tok = Some d"
    by (auto simp add: verifyToken_def jwt_verify_def split: if_splits option.splits)
  from vr have Jr: "J JWT_SECRET_REFRESH refreshtoken = Some dr"
    by (auto simp add: verifyToken_def jwt_verify_def split: if_splits option.splits)
  have "\<lparr>tokenId = jti d, expierdAt = d_exp d\<rparr> \<in> set (blackListTokens st1)"
    by (simp add: st1)
  then have "\<lparr>tokenId = jti d, expierdAt = d_exp d\<rparr> \<in> set (blackListTokens st2)"
    using run_blackList [of st1 J rs] st2 by blast
  then obtain row where row: "BlackListTokens_findOne (blackListTokens st2) (jti d) = Some row"
    by (cases "BlackListTokens_findOne (blackListTokens st2) (jti d)")
       (auto simp add: BlackListTokens_findOne_def find_None_iff)
  have vt: "validateUserToken J st2 tok res
              = (if d_exp d \<le> now st2 div 1000 then Rejected TokenExpiredError
                 else case res of
                        None \<Rightarrow> Rejected (TypeError ''Cannot read properties of undefined (reading status)'')
                      | Some r \<Rightarrow> Resolved (Res (403, ''Token blackklisted, please login again'')))" for res
    using ne Jd row by (simp add: validateUserToken_def jwt_verify_def)
  have never: "\<forall>res u t. validateUserToken J st2 tok res \<noteq> Resolved (LoggedInUser u t)"
    by (simp add: vt split: option.splits)
  have mw: "fst (middleware J st2 tok next)
              = Some (if d_exp d \<le> now st2 div 1000 then (500, ''Somthing wrong from authMiddleware'')
                      else (403, ''Token blackklisted, please login again''))"
    by (simp add: middleware_def vt sent_by_def)
  show ?thesis
    using Jd Jr st1 never vt [of "Some ResObj"] vt [of None] ne mw
    by (simp add: authenticationMiddleware_def)
qed

lemma revoked_access_token_example:
  "signOutService J0 st0 ''access-1'' ''refresh-1''
     = (st0\<lparr>blackListTokens := [\<lparr>tokenId = ''a1'', expierdAt = 5000\<rparr>, \<lparr>tokenId = ''r1'', expierdAt = 9000\<rparr>]\<rparr>,
        Resolved (201, ''Logged out Successfully''))
   \<and> validateUserToken J0
        (run J0 (st0\<lparr>blackListTokens := [\<lparr>tokenId = ''a1'', expierdAt = 5000\<rparr>, \<lparr>tokenId = ''r1'', expierdAt = 9000\<rparr>]\<rparr>)
           [Elapse 1000, Connection \<lparr>sock_id = ''s1'', accesstoken = ''access-1''\<rparr>])
        ''access-1'' (Some ResObj)
     = Resolved (Res (403, ''Token blackklisted, please login again''))"
proof -
  let ?st1 = "st0\<lparr>blackListTokens := [\<lparr>tokenId = ''a1'', expierdAt = 5000\<rparr>, \<lparr>tokenId = ''r1'', expierdAt = 9000\<rparr>]\<rparr>"
  let ?rs = "[Elapse 1000, Connection \<lparr>sock_id = ''s1'', accesstoken = ''access-1''\<rparr>]"
  have out: "signOutService J0 st0 ''access-1'' ''refresh-1'' = (?st1, Resolved (201, ''Logged out Successfully''))"
    by (simp add: signOutService_def verifyToken_def jwt_verify_def J0_def st0_def)
  have nw: "now (run J0 ?st1 ?rs) = 1000"
    by (simp add: run_def advance_def registerSocketId_def authenticationMiddleware_def
          establishIoConnection_def validateUserToken_def jwt_verify_def J0_def st0_def
          BlackListTokens_findOne_def)
  from revoked_access_token_never_accepted [OF out refl, of ?rs] nw out
  show ?thesis by (auto simp add: J0_def)
qed

section \<open>Conversation store: properties\<close>

lemma pair_filter_commute: "pair_filter a b = pair_filter b a"
  by (rule ext) (auto simp add: pair_filter_def)

text \<open>
  C6. The filter of every chat query is symmetric in the two identities, so a conversation
  stored as (a, b) is found, appended to and deleted alike under either addressing, in the
  store operations and in the two HTTP services.
\<close>

theorem pair_is_unordered:
  assumes "validated_id la = Some a" and "validated_id lb = Some b"
  shows "pair_filter (Some a) (Some b) (c\<lparr>chat_senderId := Some b, chat_receiverId := Some a\<rparr>)
       \<and> pair_filter (Some a) (Some b) (c\<lparr>chat_senderId := Some a, chat_receiverId := Some b\<rparr>)
       \<and> Chat_findOne cs (pair_filter (Some a) (Some b)) = Chat_findOne cs (pair_filter (Some b) (Some a))
       \<and> Chat_findOneAndUpdate cs (pair_filter (Some a) (Some b)) m
           = Chat_findOneAndUpdate cs (pair_filter (Some b) (Some a)) m
       \<and> Chat_findOneAndDelete cs (pair_filter (Some a) (Some b))
           = Chat_findOneAndDelete cs (pair_filter (Some b) (Some a))
       \<and> getChatServices st la b = getChatServices st lb a
       \<and> deleteChatHistoryServicve st la b = deleteChatHistoryServicve st lb a"
  using assms
  by (simp add: pair_filter_commute [of "Some a" "Some b"] getChatServices_def
        deleteChatHistoryServicve_def)
     (simp add: pair_filter_def)

theorem pair_is_unordered_witness:
  "validated_id (LoggedInUser user1 \<lparr>tokenId = ''a1'', expierdAt = 5000\<rparr>) = Some 1
   \<and> validated_id (LoggedInUser user2 \<lparr>tokenId = ''a2'', expierdAt = 5000\<rparr>) = Some 2
   \<and> getChatServices st_chat (LoggedInUser user2 \<lparr>tokenId = ''a2'', expierdAt = 5000\<rparr>) 1
       = (201, ''Chat history fetched successfully'', Some chat12)
   \<and> getChatServices st_chat (LoggedInUser user1 \<lparr>tokenId = ''a1'', expierdAt = 5000\<rparr>) 2
       = (201, ''Chat history fetched successfully'', Some chat12)"
proof -
  have a: "validated_id (LoggedInUser user1 \<lparr>tokenId = ''a1'', expierdAt = 5000\<rparr>) = Some 1"
    and b: "validated_id (LoggedInUser user2 \<lparr>tokenId = ''a2'', expierdAt = 5000\<rparr>) = Some 2"
    by (simp_all add: validated_id_def user1_def user2_def)
  have g: "getChatServices st_chat (LoggedInUser user1 \<lparr>tokenId = ''a1'', expierdAt = 5000\<rparr>) 2
       = (201, ''Chat history fetched successfully'', Some chat12)"
    by (simp add: getChatServices_def validated_id_def Chat_findOne_def st_chat_def st0_def
          chat12_def pair_filter_def populate_def populate_ref_def User_findById_def
          user1_def user2_def user3_def)
  from pair_is_unordered [OF a b, of chat12 "[]" "\<lparr>m_id = 12, body = ''Hi'', senderId = Some 2, sentAt = 5\<rparr>" st_chat] a b g
  show ?thesis by simp
qed

text \<open>
  C9. With no conversation between the two, the fetch answers 201 with \<open>chat: null\<close>: not an
  error, and not an empty list either. Account 1 asks for its history with account 2 in a
  store with no conversation.
\<close>

theorem fetch_without_conversation_counterexample:
  "getChatServices st0 (LoggedInUser user1 \<lparr>tokenId = ''a1'', expierdAt = 5000\<rparr>) 2
     = (201, ''Chat history fetched successfully'', None)"
  by (simp add: getChatServices_def Chat_findOne_def st0_def)

text \<open>
  C9, as the code has it: with no conversation between the two, the fetch does not fail; it
  answers 201 with the fixed message and no chat.
\<close>

theorem fetch_without_conversation:
  assumes "\<forall>c\<in>set (chats st). \<not> pair_filter (validated_id l) (Some r) c"
  shows "getChatServices st l r = (201, ''Chat history fetched successfully'', None)"
  using assms by (simp add: getChatServices_def Chat_findOne_def find_None_iff)

theorem fetch_without_conversation_witness:
  "list_all (\<lambda>c. \<not> pair_filter (validated_id (LoggedInUser user2 \<lparr>tokenId = ''a2'', expierdAt = 5000\<rparr>)) (Some 3) c)
     (chats st_chat)
   \<and> getChatServices st_chat (LoggedInUser user2 \<lparr>tokenId = ''a2'', expierdAt = 5000\<rparr>) 3
       = (201, ''Chat history fetched successfully'', None)"
proof -
  have h: "\<forall>c\<in>set (chats st_chat).
      \<not> pair_filter (validated_id (LoggedInUser user2 \<lparr>tokenId = ''a2'', expierdAt = 5000\<rparr>)) (Some 3) c"
    by (simp add: st_chat_def st0_def chat12_def pair_filter_def validated_id_def user2_def)
  from fetch_without_conversation [OF h] h show ?thesis
    by (simp add: list_all_iff)
qed

section \<open>Sending: properties\<close>

lemma update_first_no_match: "find P xs = None \<Longrightarrow> update_first P g xs = xs"
  by (induction xs) (auto split: if_splits)

lemma find_update_first:
  "find P xs = Some x \<Longrightarrow> P (g x) \<Longrightarrow> find P (update_first P g xs) = Some (g x)"
  by (induction xs) (auto split: if_splits)

lemma find_append_new: "find P xs = None \<Longrightarrow> P y \<Longrightarrow> find P (xs @ [y]) = Some y"
  by (induction xs) (auto split: if_splits)

lemma update_first_addToSet_messages:
  "c' \<in> set (update_first P (addToSet u) cs) \<Longrightarrow> m \<in> set (messages c')
   \<Longrightarrow> (\<exists>c\<in>set cs. m \<in> set (messages c)) \<or> m = u"
  by (induction cs) (auto simp add: addToSet_def split: if_splits)

lemma sendMessage_messages:
  assumes "c' \<in> set (chats (sendMessage st s uid dat))" and "m \<in> set (messages c')"
  shows "(\<exists>c\<in>set (chats st). m \<in> set (messages c)) \<or> senderId m = uid"
proof (cases "find (pair_filter uid (Some (data_receiverId dat))) (chats st)")
  case None
  then show ?thesis
    using assms
    by (auto simp add: sendMessage_def Chat_findOneAndUpdate_def Let_def update_first_no_match
          split: option.splits)
next
  case (Some c0)
  with assms have "c' \<in> set (update_first (pair_filter uid (Some (data_receiverId dat)))
      (addToSet \<lparr>m_id = next_oid st, body = data_body dat, senderId = uid, sentAt = now st\<rparr>) (chats st))"
    by (simp add: sendMessage_def Chat_findOneAndUpdate_def Let_def)
  from update_first_addToSet_messages [OF this assms(2)] show ?thesis
    by auto
qed

text \<open>
  C8. The listener reads \<open>body\<close> and \<open>receiverId\<close> from the payload and nothing else: a
  \<open>senderId\<close> the client puts there changes neither the state nor the events, and every
  message the listener stores carries the \<open>_id\<close> that the handshake token resolved to.
\<close>

theorem sender_from_token_only:
  "sendMessageService J st s (dat\<lparr>data_senderId := x\<rparr>) = sendMessageService J st s (dat\<lparr>data_senderId := y\<rparr>)
   \<and> (\<forall>c'\<in>set (chats (sendMessageService J st s (dat\<lparr>data_senderId := x\<rparr>))). \<forall>m\<in>set (messages c').
         (\<exists>c\<in>set (chats st). m \<in> set (messages c))
         \<or> senderId m = auth_id (authenticationMiddleware J st (accesstoken s)))"
proof
  show "sendMessageService J st s (dat\<lparr>data_senderId := x\<rparr>) = sendMessageService J st s (dat\<lparr>data_senderId := y\<rparr>)"
    by (simp add: sendMessageService_def sendMessage_def split: auth.splits promise.splits)
next
  show "\<forall>c'\<in>set (chats (sendMessageService J st s (dat\<lparr>data_senderId := x\<rparr>))). \<forall>m\<in>set (messages c').
         (\<exists>c\<in>set (chats st). m \<in> set (messages c))
         \<or> senderId m = auth_id (authenticationMiddleware J st (accesstoken s))"
  proof (intro ballI)
    fix c' m
    assume c': "c' \<in> set (chats (sendMessageService J st s (dat\<lparr>data_senderId := x\<rparr>)))"
      and m: "m \<in> set (messages c')"
    show "(\<exists>c\<in>set (chats st). m \<in> set (messages c))
         \<or> senderId m = auth_id (authenticationMiddleware J st (accesstoken s))"
    proof (cases "\<exists>err. authenticationMiddleware J st (accesstoken s) = Promise (Rejected err)")
      case True
      with c' m show ?thesis by (auto simp add: sendMessageService_def)
    next
      case False
      then have "sendMessageService J st s (dat\<lparr>data_senderId := x\<rparr>)
                 = sendMessage st s (auth_id (authenticationMiddleware J st (accesstoken s))) (dat\<lparr>data_senderId := x\<rparr>)"
        by (auto simp add: sendMessageService_def split: auth.splits promise.splits)
      with c' m sendMessage_messages show ?thesis by metis
    qed
  qed
qed

theorem sender_from_token_only_witness:
  "sendMessageService J0 st_chat sock2 \<lparr>data_body = ''Hi'', data_receiverId = 1, data_senderId = Some 1\<rparr>
     = sendMessageService J0 st_chat sock2 \<lparr>data_body = ''Hi'', data_receiverId = 1, data_senderId = None\<rparr>
   \<and> chats (sendMessageService J0 st_chat sock2 \<lparr>data_body = ''Hi'', data_receiverId = 1, data_senderId = Some 1\<rparr>)
     = [chat12\<lparr>messages := messages chat12 @ [\<lparr>m_id = 100, body = ''Hi'', senderId = Some 2, sentAt = 0\<rparr>]\<rparr>]"
proof -
  have "chats (sendMessageService J0 st_chat sock2 \<lparr>data_body = ''Hi'', data_receiverId = 1, data_senderId = Some 1\<rparr>)
     = [chat12\<lparr>messages := messages chat12 @ [\<lparr>m_id = 100, body = ''Hi'', senderId = Some 2, sentAt = 0\<rparr>]\<rparr>]"
    by (simp add: sendMessageService_def authenticationMiddleware_def validateUserToken_def
          jwt_verify_def J0_def st_chat_def st0_def sock2_def BlackListTokens_findOne_def
          User_findById_def user1_def user2_def user3_def auth_id_def validated_id_def
          sendMessage_def Chat_findOneAndUpdate_def chat12_def pair_filter_def addToSet_def Let_def)
  with sender_from_token_only [where J = J0 and st = st_chat and s = sock2
      and dat = "\<lparr>data_body = ''Hi'', data_receiverId = 1, data_senderId = None\<rparr>"
      and x = "Some 1" and y = None]
  show ?thesis by simp
qed

section \<open>Starting a conversation\<close>

lemma company_clauses:
  "list_ex (\<lambda>(p, v). field_eq (company_field c p) v) [(''cretaedBy'', Some i), (''HRs'', Some i)]
   = (i \<in> set (HRs c))"
  by (simp add: company_field_def)

lemma Company_findOne_HR:
  "Company_findOne cs [(''cretaedBy'', Some i), (''HRs'', Some i)]
   = find (\<lambda>c. c_isDeleted c = False \<and> i \<in> set (HRs c)) cs"
  unfolding Company_findOne_def company_clauses ..

lemma auth_resolved_id:
  "authenticationMiddleware J st tok = Promise (Resolved (LoggedInUser u t))
   \<Longrightarrow> auth_id (authenticationMiddleware J st tok) = Some (u_id u)"
  by (simp add: auth_id_def validated_id_def)

lemma sendMessageService_resolved:
  "authenticationMiddleware J st (accesstoken s) = Promise (Resolved (LoggedInUser u t))
   \<Longrightarrow> sendMessageService J st s dat = sendMessage st s (Some (u_id u)) dat"
  by (simp add: sendMessageService_def auth_id_def validated_id_def)

lemma sendMessage_create:
  assumes "find (pair_filter uid (Some (data_receiverId dat))) (chats st) = None"
    and "Company_findOne (companies st) [(''cretaedBy'', uid), (''HRs'', uid)] = Some co"
  shows "sendMessage st s uid dat =
     (let chat = \<lparr>chat_id = next_oid st + 1, chat_senderId = uid,
                   chat_receiverId = Some (data_receiverId dat),
                   messages = [\<lparr>m_id = next_oid st + 2, body = data_body dat,
                                senderId = uid, sentAt = now st\<rparr>]\<rparr>
      in st\<lparr>chats := chats st @ [chat], next_oid := next_oid st + 3,
            emitted := emitted st @
              [Emit (sock_id s) ''successMessage'' (SuccessMessage (data_body dat) chat),
               EmitTo (sock_id s) (socketConnection st (Some (data_receiverId dat))) ''receiveMessage''
                 (ReceiveMessage (data_body dat))]\<rparr>)"
  using assms
  by (simp add: sendMessage_def Chat_findOneAndUpdate_def Let_def update_first_no_match)

lemma sendMessage_reject:
  assumes "find (pair_filter uid (Some (data_receiverId dat))) (chats st) = None"
    and "Company_findOne (companies st) [(''cretaedBy'', uid), (''HRs'', uid)] = None"
  shows "sendMessage st s uid dat =
     st\<lparr>chats := chats st, next_oid := next_oid st + 1,
        emitted := emitted st @
          [Emit (sock_id s) ''error'' (Message ''Only Hr or Company owner start chat'')]\<rparr>"
  using assms
  by (simp add: sendMessage_def Chat_findOneAndUpdate_def Let_def update_first_no_match)

lemma sendMessage_append:
  assumes "find (pair_filter uid (Some (data_receiverId dat))) (chats st) = Some c"
  shows "sendMessage st s uid dat =
     st\<lparr>chats := update_first (pair_filter uid (Some (data_receiverId dat)))
                   (addToSet \<lparr>m_id = next_oid st, body = data_body dat, senderId = uid, sentAt = now st\<rparr>)
                   (chats st),
        next_oid := next_oid st + 1,
        emitted := emitted st @
          [Emit (sock_id s) ''successMessage'' (SuccessMessage (data_body dat) c),
           EmitTo (sock_id s) (socketConnection st (Some (data_receiverId dat))) ''receiveMessage''
             (ReceiveMessage (data_body dat))]\<rparr>"
  using assms
  by (simp add: sendMessage_def Chat_findOneAndUpdate_def Let_def)

text \<open>
  C1. A first message is not allowed to every sender that some company lists as HR: the
  lookup skips soft-deleted companies. Account 1 is HR of a soft-deleted company only, and
  its first message to account 2 is refused.
\<close>

theorem HR_of_deleted_company_counterexample:
  "1 \<in> set (HRs company_deleted)
   \<and> companies st_hr_deleted = [company_deleted]
   \<and> chats st_hr_deleted = []
   \<and> authenticationMiddleware J0 st_hr_deleted (accesstoken sock1)
       = Promise (Resolved (LoggedInUser user1 \<lparr>tokenId = ''a1'', expierdAt = 5000\<rparr>))
   \<and> chats (sendMessageService J0 st_hr_deleted sock1 hello_to_2) = []
   \<and> emitted (sendMessageService J0 st_hr_deleted sock1 hello_to_2)
       = [Emit ''s1'' ''error'' (Message ''Only Hr or Company owner start chat'')]"
proof -
  have a: "authenticationMiddleware J0 st_hr_deleted (accesstoken sock1)
       = Promise (Resolved (LoggedInUser user1 \<lparr>tokenId = ''a1'', expierdAt = 5000\<rparr>))"
    by (simp add: authenticationMiddleware_def validateUserToken_def jwt_verify_def J0_def
          st_hr_deleted_def st0_def sock1_def BlackListTokens_findOne_def User_findById_def
          user1_def user2_def user3_def)
  have s: "sendMessageService J0 st_hr_deleted sock1 hello_to_2
           = sendMessage st_hr_deleted sock1 (Some 1) hello_to_2"
    using sendMessageService_resolved [OF a] by (simp add: user1_def)
  have f: "find (pair_filter (Some 1) (Some (data_receiverId hello_to_2))) (chats st_hr_deleted) = None"
    by (simp add: st_hr_deleted_def st0_def)
  have c: "Company_findOne (companies st_hr_deleted) [(''cretaedBy'', Some 1), (''HRs'', Some 1)] = None"
    by (simp add: Company_findOne_HR st_hr_deleted_def st0_def company_deleted_def)
  show ?thesis
    unfolding s sendMessage_reject [OF f c] using a
    by (simp add: st_hr_deleted_def st0_def company_deleted_def sock1_def)
qed

text \<open>
  C1, as the code has it by design: with no conversation between the authenticated sender
  and the receiver, an HR of a company that is not soft-deleted starts the conversation
  (one message, acknowledged to the sender, forwarded towards the receiver's binding); a
  sender who is neither HR nor creator of any such company gets the fixed error event, and
  no conversation is stored.
\<close>

theorem first_message_authorization:
  assumes auth: "authenticationMiddleware J st (accesstoken s) = Promise (Resolved (LoggedInUser u t))"
    and none: "\<forall>c\<in>set (chats st). \<not> pair_filter (Some (u_id u)) (Some (data_receiverId dat)) c"
  shows "let chat = \<lparr>chat_id = next_oid st + 1, chat_senderId = Some (u_id u),
                      chat_receiverId = Some (data_receiverId dat),
                      messages = [\<lparr>m_id = next_oid st + 2, body = data_body dat,
                                   senderId = Some (u_id u), sentAt = now st\<rparr>]\<rparr>;
             st' = sendMessageService J st s dat
         in ((\<exists>c\<in>set (companies st). c_isDeleted c = False \<and> u_id u \<in> set (HRs c)) \<longrightarrow>
               chats st' = chats st @ [chat]
               \<and> emitted st' = emitted st @
                   [Emit (sock_id s) ''successMessage'' (SuccessMessage (data_body dat) chat),
                    EmitTo (sock_id s) (socketConnection st (Some (data_receiverId dat)))
                      ''receiveMessage'' (ReceiveMessage (data_body dat))])
          \<and> ((\<forall>c\<in>set (companies st). c_isDeleted c = False \<longrightarrow>
                  u_id u \<notin> set (HRs c) \<and> createdBy c \<noteq> u_id u) \<longrightarrow>
               chats st' = chats st
               \<and> emitted st' = emitted st @
                   [Emit (sock_id s) ''error'' (Message ''Only Hr or Company owner start chat'')])"
proof -
  have s: "sendMessageService J st s dat = sendMessage st s (Some (u_id u)) dat"
    by (rule sendMessageService_resolved [OF auth])
  have f: "find (pair_filter (Some (u_id u)) (Some (data_receiverId dat))) (chats st) = None"
    using none by (simp add: find_None_iff)
  have yes: "chats (sendMessage st s (Some (u_id u)) dat) = chats st @
               [\<lparr>chat_id = next_oid st + 1, chat_senderId = Some (u_id u),
                 chat_receiverId = Some (data_receiverId dat),
                 messages = [\<lparr>m_id = next_oid st + 2, body = data_body dat,
                              senderId = Some (u_id u), sentAt = now st\<rparr>]\<rparr>]
             \<and> emitted (sendMessage st s (Some (u_id u)) dat) = emitted st @
                   [Emit (sock_id s) ''successMessage'' (SuccessMessage (data_body dat)
                      \<lparr>chat_id = next_oid st + 1, chat_senderId = Some (u_id u),
                       chat_receiverId = Some (data_receiverId dat),
                       messages = [\<lparr>m_id = next_oid st + 2, body = data_body dat,
                              senderId = Some (u_id u), sentAt = now st\<rparr>]\<rparr>),
                    EmitTo (sock_id s) (socketConnection st (Some (data_receiverId dat)))
                      ''receiveMessage'' (ReceiveMessage (data_body dat))]"
    if hr: "\<exists>c\<in>set (companies st). c_isDeleted c = False \<and> u_id u \<in> set (HRs c)"
  proof -
    from hr obtain co where
      "Company_findOne (companies st) [(''cretaedBy'', Some (u_id u)), (''HRs'', Some (u_id u))] = Some co"
      unfolding Company_findOne_HR
      by (cases "find (\<lambda>c. c_isDeleted c = False \<and> u_id u \<in> set (HRs c)) (companies st)")
         (auto simp add: find_None_iff)
    from sendMessage_create [OF f this] show ?thesis by (simp add: Let_def)
  qed
  have no: "chats (sendMessage st s (Some (u_id u)) dat) = chats st
             \<and> emitted (sendMessage st s (Some (u_id u)) dat) = emitted st @
                   [Emit (sock_id s) ''error'' (Message ''Only Hr or Company owner start chat'')]"
    if nr: "\<forall>c\<in>set (companies st). c_isDeleted c = False \<longrightarrow>
                  u_id u \<notin> set (HRs c) \<and> createdBy c \<noteq> u_id u"
  proof -
    from nr have
      "Company_findOne (companies st) [(''cretaedBy'', Some (u_id u)), (''HRs'', Some (u_id u))] = None"
      unfolding Company_findOne_HR by (auto simp add: find_None_iff)
    from sendMessage_reject [OF f this] show ?thesis by simp
  qed
  from yes no show ?thesis unfolding Let_def s by blast
qed

theorem first_message_authorization_witness:
  "authenticationMiddleware J0 st_hr (accesstoken sock1)
       = Promise (Resolved (LoggedInUser user1 \<lparr>tokenId = ''a1'', expierdAt = 5000\<rparr>))
   \<and> chats st_hr = []
   \<and> company_live \<in> set (companies st_hr) \<and> c_isDeleted company_live = False
   \<and> u_id user1 \<in> set (HRs company_live)
   \<and> chats (sendMessageService J0 st_hr sock1 hello_to_2)
       = [\<lparr>chat_id = 101, chat_senderId = Some 1, chat_receiverId = Some 2,
           messages = [\<lparr>m_id = 102, body = ''Hello'', senderId = Some 1, sentAt = 0\<rparr>]\<rparr>]
   \<and> emitted (sendMessageService J0 st_hr sock1 hello_to_2)
       = [Emit ''s1'' ''successMessage'' (SuccessMessage ''Hello''
            \<lparr>chat_id = 101, chat_senderId = Some 1, chat_receiverId = Some 2,
             messages = [\<lparr>m_id = 102, body = ''Hello'', senderId = Some 1, sentAt = 0\<rparr>]\<rparr>),
          EmitTo ''s1'' None ''receiveMessage'' (ReceiveMessage ''Hello'')]"
proof -
  have a: "authenticationMiddleware J0 st_hr (accesstoken sock1)
       = Promise (Resolved (LoggedInUser user1 \<lparr>tokenId = ''a1'', expierdAt = 5000\<rparr>))"
    by (simp add: authenticationMiddleware_def validateUserToken_def jwt_verify_def J0_def
          st_hr_def st0_def sock1_def BlackListTokens_findOne_def User_findById_def
          user1_def user2_def user3_def)
  have n: "\<forall>c\<in>set (chats st_hr). \<not> pair_filter (Some (u_id user1)) (Some (data_receiverId hello_to_2)) c"
    by (simp add: st_hr_def st0_def)
  have hr: "\<exists>c\<in>set (companies st_hr). c_isDeleted c = False \<and> u_id user1 \<in> set (HRs c)"
    by (simp add: st_hr_def st0_def company_live_def user1_def)
  from first_message_authorization [OF a n] hr a
  show ?thesis
    by (simp add: Let_def st_hr_def st0_def company_live_def user1_def hello_to_2_def sock1_def)
qed

text \<open>The creator of a company who is not among its HRs is refused as well: the filter
  names the path \<open>cretaedBy\<close>, which no company document has.\<close>

lemma creator_not_HR_refused:
  "createdBy company_live = 2
   \<and> companies st_hr = [company_live]
   \<and> chats (sendMessageService J0 st_hr sock2 hello_to_1) = []
   \<and> emitted (sendMessageService J0 st_hr sock2 hello_to_1)
       = [Emit ''s2'' ''error'' (Message ''Only Hr or Company owner start chat'')]"
proof -
  have a: "authenticationMiddleware J0 st_hr (accesstoken sock2)
       = Promise (Resolved (LoggedInUser user2 \<lparr>tokenId = ''a2'', expierdAt = 5000\<rparr>))"
    by (simp add: authenticationMiddleware_def validateUserToken_def jwt_verify_def J0_def
          st_hr_def st0_def sock2_def BlackListTokens_findOne_def User_findById_def
          user1_def user2_def user3_def)
  have s: "sendMessageService J0 st_hr sock2 hello_to_1 = sendMessage st_hr sock2 (Some 2) hello_to_1"
    using sendMessageService_resolved [OF a] by (simp add: user2_def)
  have f: "find (pair_filter (Some 2) (Some (data_receiverId hello_to_1))) (chats st_hr) = None"
    by (simp add: st_hr_def st0_def)
  have c: "Company_findOne (companies st_hr) [(''cretaedBy'', Some 2), (''HRs'', Some 2)] = None"
    by (simp add: Company_findOne_HR st_hr_def st0_def company_live_def)
  show ?thesis
    unfolding s sendMessage_reject [OF f c]
    by (simp add: st_hr_def st0_def company_live_def sock2_def)
qed

section \<open>Appending and fetching\<close>

lemma auth_user_found:
  assumes "authenticationMiddleware J st tok = Promise (Resolved (LoggedInUser u t))"
  shows "User_findById (users st) (u_id u) = Some u"
proof -
  from assms obtain d :: decoded where "User_findById (users st) (d_id d) = Some u"
    by (auto simp add: authenticationMiddleware_def validateUserToken_def
          split: if_splits sum.splits option.splits)
  then show ?thesis using findById_id by fastforce
qed

lemma oid_fresh_update_first:
  "list_all (\<lambda>c. list_all (\<lambda>m. m_id m < n) (messages c)) cs \<Longrightarrow> m_id u = n
   \<Longrightarrow> list_all (\<lambda>c. list_all (\<lambda>m. m_id m < Suc n) (messages c)) (update_first P (addToSet u) cs)"
  by (induction cs) (auto simp add: addToSet_def list_all_iff less_Suc_eq)

lemma oid_fresh_sendMessage:
  assumes "oid_fresh st"
  shows "oid_fresh (sendMessage st s uid dat)"
proof (cases "find (pair_filter uid (Some (data_receiverId dat))) (chats st)")
  case (Some c)
  from assms show ?thesis
    unfolding sendMessage_append [OF Some] oid_fresh_def
    by (simp add: oid_fresh_update_first)
next
  case None
  note f = this
  show ?thesis
  proof (cases "Company_findOne (companies st) [(''cretaedBy'', uid), (''HRs'', uid)]")
    case None
    from assms show ?thesis
      unfolding sendMessage_reject [OF f None] oid_fresh_def
      by (fastforce simp add: list_all_iff less_Suc_eq)
  next
    case (Some co)
    from assms show ?thesis
      unfolding sendMessage_create [OF f Some] oid_fresh_def
      by (fastforce simp add: list_all_iff Let_def)
  qed
qed

lemma addToSet_fresh:
  "list_all (\<lambda>m. m_id m < m_id u) (messages c) \<Longrightarrow> addToSet u c = c\<lparr>messages := messages c @ [u]\<rparr>"
  by (auto simp add: addToSet_def list_all_iff)

text \<open>
  C5. A send that is not refused puts its message at the end of what a fetch by the sender
  shows: the history fetched afterwards is the history fetched before, in the same order,
  followed by the new message, whether the conversation existed or the send created it.
  The generator's invariant is kept, so the same holds for the next send.
\<close>

theorem fetch_after_append:
  assumes auth: "authenticationMiddleware J st (accesstoken s) = Promise (Resolved (LoggedInUser u t))"
    and fresh: "oid_fresh st"
    and accepted: "emitted (sendMessageService J st s dat)
        \<noteq> emitted st @ [Emit (sock_id s) ''error'' (Message ''Only Hr or Company owner start chat'')]"
  shows "let before = getChatServices st (LoggedInUser u t) (data_receiverId dat);
             after = getChatServices (sendMessageService J st s dat) (LoggedInUser u t) (data_receiverId dat);
             M = \<lparr>m_id = (if snd (snd before) = None then next_oid st + 2 else next_oid st),
                  body = data_body dat, senderId = Some (u_id u), sentAt = now st\<rparr>
         in fst after = 201 \<and> snd (snd after) \<noteq> None
          \<and> history after = history before @ [M]
          \<and> last (history after) = M
          \<and> oid_fresh (sendMessageService J st s dat)"
proof -
  let ?f = "pair_filter (Some (u_id u)) (Some (data_receiverId dat))"
  let ?st' = "sendMessage st s (Some (u_id u)) dat"
  have s: "sendMessageService J st s dat = ?st'"
    by (rule sendMessageService_resolved [OF auth])
  have pop: "populate_ref (users st) (Some (u_id u)) = Some (u_id u)"
    by (simp add: populate_ref_def auth_user_found [OF auth])
  have fr: "oid_fresh ?st'" by (rule oid_fresh_sendMessage [OF fresh])
  have us: "users ?st' = users st" by (rule sendMessage_users)
  show ?thesis
  proof (cases "find ?f (chats st)")
    case None
    note f = this
    have b: "getChatServices st (LoggedInUser u t) (data_receiverId dat)
              = (201, ''Chat history fetched successfully'', None)"
      by (simp add: getChatServices_def Chat_findOne_def validated_id_def f)
    show ?thesis
    proof (cases "Company_findOne (companies st) [(''cretaedBy'', Some (u_id u)), (''HRs'', Some (u_id u))]")
      case None
      with accepted show ?thesis
        unfolding s sendMessage_reject [OF f None] by simp
    next
      case (Some co)
      let ?chat = "\<lparr>chat_id = next_oid st + 1, chat_senderId = Some (u_id u),
                   chat_receiverId = Some (data_receiverId dat),
                   messages = [\<lparr>m_id = next_oid st + 2, body = data_body dat,
                                senderId = Some (u_id u), sentAt = now st\<rparr>]\<rparr>"
      have cs: "chats ?st' = chats st @ [?chat]"
        unfolding sendMessage_create [OF f Some] by (simp add: Let_def)
      have "find ?f (chats ?st') = Some ?chat"
        unfolding cs by (rule find_append_new [OF f]) (simp add: pair_filter_def)
      then have "getChatServices ?st' (LoggedInUser u t) (data_receiverId dat)
                  = (201, ''Chat history fetched successfully'', Some (populate (users st) ?chat))"
        by (simp add: getChatServices_def Chat_findOne_def validated_id_def us)
      moreover have "messages (populate (users st) ?chat)
                  = [\<lparr>m_id = next_oid st + 2, body = data_body dat,
                                senderId = Some (u_id u), sentAt = now st\<rparr>]"
        by (simp add: populate_def pop)
      ultimately show ?thesis
        unfolding s b Let_def using fr by (simp add: history_def)
    qed
  next
    case (Some c0)
    let ?upd = "\<lparr>m_id = next_oid st, body = data_body dat, senderId = Some (u_id u), sentAt = now st\<rparr>"
    from Some have c0: "c0 \<in> set (chats st)" and fc0: "?f c0"
      by (auto simp add: find_Some_iff)
    from fresh c0 have "list_all (\<lambda>m. m_id m < m_id ?upd) (messages c0)"
      by (simp add: oid_fresh_def list_all_iff)
    then have g: "addToSet ?upd c0 = c0\<lparr>messages := messages c0 @ [?upd]\<rparr>"
      by (rule addToSet_fresh)
    have cs: "chats ?st' = update_first ?f (addToSet ?upd) (chats st)"
      unfolding sendMessage_append [OF Some] by simp
    have "find ?f (chats ?st') = Some (addToSet ?upd c0)"
      unfolding cs using Some
    proof (rule find_update_first)
      show "?f (addToSet ?upd c0)"
        using fc0 unfolding g by (simp add: pair_filter_def)
    qed
    then have "getChatServices ?st' (LoggedInUser u t) (data_receiverId dat)
                = (201, ''Chat history fetched successfully'',
                   Some (populate (users st) (c0\<lparr>messages := messages c0 @ [?upd]\<rparr>)))"
      by (simp add: getChatServices_def Chat_findOne_def validated_id_def us g)
    moreover have b: "getChatServices st (LoggedInUser u t) (data_receiverId dat)
                        = (201, ''Chat history fetched successfully'', Some (populate (users st) c0))"
      by (simp add: getChatServices_def Chat_findOne_def validated_id_def Some)
    moreover have "messages (populate (users st) (c0\<lparr>messages := messages c0 @ [?upd]\<rparr>))
                    = messages (populate (users st) c0) @ [?upd]"
      by (simp add: populate_def pop)
    ultimately show ?thesis
      unfolding s Let_def using fr by (simp add: history_def)
  qed
qed

theorem fetch_after_append_witness:
  "authenticationMiddleware J0 st_chat (accesstoken sock2)
     = Promise (Resolved (LoggedInUser user2 \<lparr>tokenId = ''a2'', expierdAt = 5000\<rparr>))
   \<and> oid_fresh st_chat
   \<and> emitted (sendMessageService J0 st_chat sock2 hello_to_1)
       = [Emit ''s2'' ''successMessage'' (SuccessMessage ''Hello'' chat12),
          EmitTo ''s2'' None ''receiveMessage'' (ReceiveMessage ''Hello'')]
   \<and> history (getChatServices st_chat (LoggedInUser user2 \<lparr>tokenId = ''a2'', expierdAt = 5000\<rparr>) 1)
       = [\<lparr>m_id = 11, body = ''Hello'', senderId = Some 1, sentAt = 0\<rparr>]
   \<and> history (getChatServices (sendMessageService J0 st_chat sock2 hello_to_1)
        (LoggedInUser user2 \<lparr>tokenId = ''a2'', expierdAt = 5000\<rparr>) 1)
       = [\<lparr>m_id = 11, body = ''Hello'', senderId = Some 1, sentAt = 0\<rparr>,
          \<lparr>m_id = 100, body = ''Hello'', senderId = Some 2, sentAt = 0\<rparr>]"
proof -
  have a: "authenticationMiddleware J0 st_chat (accesstoken sock2)
     = Promise (Resolved (LoggedInUser user2 \<lparr>tokenId = ''a2'', expierdAt = 5000\<rparr>))"
    by (simp add: authenticationMiddleware_def validateUserToken_def jwt_verify_def J0_def
          st_chat_def st0_def sock2_def BlackListTokens_findOne_def User_findById_def
          user1_def user2_def user3_def)
  have fr: "oid_fresh st_chat"
    by (simp add: oid_fresh_def st_chat_def st0_def chat12_def)
  have f: "find (pair_filter (Some 2) (Some (data_receiverId hello_to_1))) (chats st_chat) = Some chat12"
    by (simp add: st_chat_def st0_def chat12_def hello_to_1_def pair_filter_def)
  have s: "sendMessageService J0 st_chat sock2 hello_to_1 = sendMessage st_chat sock2 (Some 2) hello_to_1"
    using sendMessageService_resolved [OF a] by (simp add: user2_def)
  have e: "emitted (sendMessageService J0 st_chat sock2 hello_to_1)
       = [Emit ''s2'' ''successMessage'' (SuccessMessage ''Hello'' chat12),
          EmitTo ''s2'' None ''receiveMessage'' (ReceiveMessage ''Hello'')]"
    unfolding s sendMessage_append [OF f]
    by (simp add: st_chat_def st0_def hello_to_1_def sock2_def)
  have b: "getChatServices st_chat (LoggedInUser user2 \<lparr>tokenId = ''a2'', expierdAt = 5000\<rparr>) 1
       = (201, ''Chat history fetched successfully'', Some chat12)"
    by (simp add: getChatServices_def Chat_findOne_def validated_id_def st_chat_def
          st0_def chat12_def pair_filter_def populate_def populate_ref_def User_findById_def
          user1_def user2_def user3_def)
  have acc: "emitted (sendMessageService J0 st_chat sock2 hello_to_1)
        \<noteq> emitted st_chat @ [Emit (sock_id sock2) ''error'' (Message ''Only Hr or Company owner start chat'')]"
    unfolding e by (simp add: st_chat_def st0_def)
  have r: "data_receiverId hello_to_1 = 1" "data_body hello_to_1 = ''Hello''"
    by (simp_all add: hello_to_1_def)
  from fetch_after_append [OF a fr acc] a fr e
  show ?thesis
    unfolding r b Let_def
    by (simp add: history_def chat12_def user2_def st_chat_def st0_def)
qed

section \<open>Deferred deletion: properties\<close>

lemma remove_first_single:
  "filter P cs = [c] \<Longrightarrow> remove_first P cs = filter (\<lambda>x. \<not> P x) cs"
proof (induction cs)
  case Nil
  then show ?case by simp
next
  case (Cons x xs)
  show ?case
  proof (cases "P x")
    case True
    with Cons.prems have "filter P xs = []" by simp
    then have "filter (\<lambda>x. \<not> P x) xs = xs"
      by (simp add: filter_empty_conv filter_id_conv)
    with True show ?thesis by simp
  next
    case False
    with Cons show ?thesis by simp
  qed
qed

lemma filter_single_find: "filter P cs = [c] \<Longrightarrow> find P cs = Some c"
  by (induction cs) (auto split: if_splits)

lemma filter_remove_first_other:
  "(\<forall>x\<in>set cs. Q x \<longrightarrow> \<not> P x) \<Longrightarrow> filter P (remove_first Q cs) = filter P cs"
  by (induction cs) auto

lemma timeout_callback_chats:
  "chats (timeout_callback tm st)
   = remove_first (pair_filter (t_loggedInUser_id tm) (Some (t_receiverId tm))) (chats st)"
  by (cases "t_loggedInUser_id tm")
     (simp_all add: timeout_callback_def Chat_findOneAndDelete_def Let_def)

lemma timeout_callback_keeps:
  assumes "filter P (chats st) = [c]"
    and "\<not> pair_filter (t_loggedInUser_id tm) (Some (t_receiverId tm)) c"
  shows "filter P (chats (timeout_callback tm st)) = [c]"
proof -
  let ?Q = "pair_filter (t_loggedInUser_id tm) (Some (t_receiverId tm))"
  have "\<forall>x\<in>set (chats st). ?Q x \<longrightarrow> \<not> P x"
  proof (intro ballI impI notI)
    fix x assume "x \<in> set (chats st)" and q: "?Q x" and "P x"
    then have "x \<in> set (filter P (chats st))" by simp
    then have "x = c" unfolding assms(1) by simp
    with q assms(2) show False by simp
  qed
  then have "filter P (remove_first ?Q (chats st)) = filter P (chats st)"
    by (rule filter_remove_first_other)
  with assms(1) show ?thesis
    by (simp add: timeout_callback_chats)
qed

lemma fold_timeout_keeps:
  "filter P (chats st) = [c]
   \<Longrightarrow> \<forall>tm\<in>set tms. \<not> pair_filter (t_loggedInUser_id tm) (Some (t_receiverId tm)) c
   \<Longrightarrow> filter P (chats (fold timeout_callback tms st)) = [c]"
  by (induction tms arbitrary: st) (simp_all add: timeout_callback_keeps)

lemma timeout_callback_timers:
  "timeout_callback tm (st\<lparr>timers := x\<rparr>) = (timeout_callback tm st)\<lparr>timers := x\<rparr>"
  by (simp add: timeout_callback_def Let_def split: option.splits)

lemma fold_timeout_timers:
  "fold timeout_callback tms (st\<lparr>timers := x\<rparr>) = (fold timeout_callback tms st)\<lparr>timers := x\<rparr>"
  by (induction tms arbitrary: st) (simp_all add: timeout_callback_timers)

lemma fold_timeout_socketConnection:
  "socketConnection (fold timeout_callback tms st) = socketConnection st"
  by (induction tms arbitrary: st) (auto simp add: timeout_callback_def Let_def split: option.splits)

lemma deleteChatAfter24Hour_resolved:
  "authenticationMiddleware J st (accesstoken s) = Promise (Resolved (LoggedInUser u t))
   \<Longrightarrow> deleteChatAfter24Hour J st s dat =
       st\<lparr>timers := timers st @
            [\<lparr>due = now st + 86400000, t_socket = sock_id s,
              t_loggedInUser_id = Some (u_id u), t_receiverId = data_receiverId dat\<rparr>]\<rparr>"
  by (simp add: deleteChatAfter24Hour_def auth_id_def validated_id_def)

text \<open>What a state with one more pending timer looks like before and when that timer is due.\<close>

lemma advance_before_due:
  assumes "t < due tm"
  shows "advance (st\<lparr>timers := timers st @ [tm]\<rparr>) t = (advance st t)\<lparr>timers := timers (advance st t) @ [tm]\<rparr>"
proof (cases "t < now st")
  case True
  then show ?thesis by (simp add: advance_def)
next
  case False
  let ?s0 = "st\<lparr>now := t\<rparr>"
  have t: "timers (fold timeout_callback tms (?s0\<lparr>timers := x\<rparr>)) = x" for tms x
    by (simp add: fold_timeout_timers)
  from False assms show ?thesis
    by (simp add: advance_def fold_timeout_timers)
qed

lemma advance_at_due:
  assumes "now st \<le> due tm"
  shows "advance (st\<lparr>timers := timers st @ [tm]\<rparr>) (due tm) = timeout_callback tm (advance st (due tm))"
  using assms by (simp add: advance_def fold_timeout_timers timeout_callback_timers)

lemma advance_keeps:
  assumes "filter P (chats st) = [c]"
    and "\<forall>tm\<in>set (timers st). \<not> pair_filter (t_loggedInUser_id tm) (Some (t_receiverId tm)) c"
  shows "filter P (chats (advance st t)) = [c]"
proof (cases "t < now st")
  case True
  with assms(1) show ?thesis by (simp add: advance_def)
next
  case False
  have "filter P (chats (fold timeout_callback (filter (\<lambda>tm. due tm \<le> t) (timers st))
          (st\<lparr>now := t, timers := filter (\<lambda>tm. \<not> due tm \<le> t) (timers st)\<rparr>))) = [c]"
    by (rule fold_timeout_keeps) (use assms in simp_all)
  with False show ?thesis by (simp add: advance_def)
qed

lemma advance_socketConnection: "socketConnection (advance st t) = socketConnection st"
  by (simp add: advance_def fold_timeout_socketConnection)

text \<open>
  What the \<open>deleteChat\<close> listener of \<open>chat.service.js\<close> does where it is attached. It
  deletes nothing: it arms one timer, due 86400000 ms (24 hours) later. At every time before
  that the store and the events are what they would be without the request, and the
  conversation of the pair is still found, provided no deletion armed earlier is aimed at
  it. At that time the callback has removed the conversation, leaving the others, and has
  emitted \<open>chatDeleted\<close> towards the receiver's and the sender's socket ids as the
  connection map holds them when the timer fires. Time passes with nothing else happening,
  and callbacks run when they are due.
\<close>

lemma deferred_deletion:
  assumes auth: "authenticationMiddleware J st (accesstoken s) = Promise (Resolved (LoggedInUser u t))"
    and conv: "filter (pair_filter (Some (u_id u)) (Some (data_receiverId dat))) (chats st) = [c]"
    and others: "\<forall>tm\<in>set (timers st). \<not> pair_filter (t_loggedInUser_id tm) (Some (t_receiverId tm)) c"
  shows "let armed = deleteChatAfter24Hour J st s dat;
             day = 86400000;
             note = Message ''Chat history deleted after 24 hours'';
             pair = pair_filter (Some (u_id u)) (Some (data_receiverId dat))
         in chats armed = chats st
          \<and> timers armed = timers st @
               [\<lparr>due = now st + day, t_socket = sock_id s,
                 t_loggedInUser_id = Some (u_id u), t_receiverId = data_receiverId dat\<rparr>]
          \<and> (\<forall>t. t < now st + day \<longrightarrow>
                chats (advance armed t) = chats (advance st t)
                \<and> emitted (advance armed t) = emitted (advance st t)
                \<and> Chat_findOne (chats (advance armed t)) pair = Some c)
          \<and> (\<forall>reg. let fired = advance (armed\<lparr>socketConnection := reg\<rparr>) (now st + day);
                       idle = advance (st\<lparr>socketConnection := reg\<rparr>) (now st + day)
                in Chat_findOne (chats fired) pair = None
                 \<and> chats fired = filter (\<lambda>x. x \<noteq> c) (chats idle)
                 \<and> emitted fired = emitted idle @
                     [EmitTo (sock_id s) (reg (Some (data_receiverId dat))) ''chatDeleted'' note,
                      EmitTo (sock_id s) (reg (Some (u_id u))) ''chatDeleted'' note])"
proof -
  let ?P = "pair_filter (Some (u_id u)) (Some (data_receiverId dat))"
  let ?tm = "\<lparr>due = now st + 86400000, t_socket = sock_id s,
              t_loggedInUser_id = Some (u_id u), t_receiverId = data_receiverId dat\<rparr>"
  have armed: "deleteChatAfter24Hour J st s dat = st\<lparr>timers := timers st @ [?tm]\<rparr>"
    by (rule deleteChatAfter24Hour_resolved [OF auth])
  have before: "chats (advance (st\<lparr>timers := timers st @ [?tm]\<rparr>) t') = chats (advance st t')
                \<and> emitted (advance (st\<lparr>timers := timers st @ [?tm]\<rparr>) t') = emitted (advance st t')
                \<and> Chat_findOne (chats (advance (st\<lparr>timers := timers st @ [?tm]\<rparr>) t')) ?P = Some c"
    if "t' < now st + 86400000" for t'
  proof -
    from that have "t' < due ?tm" by simp
    from advance_before_due [OF this, of st]
    have "advance (st\<lparr>timers := timers st @ [?tm]\<rparr>) t'
            = (advance st t')\<lparr>timers := timers (advance st t') @ [?tm]\<rparr>" .
    moreover have "find ?P (chats (advance st t')) = Some c"
      by (rule filter_single_find) (rule advance_keeps [OF conv others])
    ultimately show ?thesis by (simp add: Chat_findOne_def)
  qed
  have fired: "Chat_findOne (chats (advance (st\<lparr>timers := timers st @ [?tm], socketConnection := reg\<rparr>) (now st + 86400000))) ?P = None
      \<and> chats (advance (st\<lparr>timers := timers st @ [?tm], socketConnection := reg\<rparr>) (now st + 86400000))
          = filter (\<lambda>x. x \<noteq> c) (chats (advance (st\<lparr>socketConnection := reg\<rparr>) (now st + 86400000)))
      \<and> emitted (advance (st\<lparr>timers := timers st @ [?tm], socketConnection := reg\<rparr>) (now st + 86400000))
          = emitted (advance (st\<lparr>socketConnection := reg\<rparr>) (now st + 86400000)) @
               [EmitTo (sock_id s) (reg (Some (data_receiverId dat))) ''chatDeleted''
                  (Message ''Chat history deleted after 24 hours''),
                EmitTo (sock_id s) (reg (Some (u_id u))) ''chatDeleted''
                  (Message ''Chat history deleted after 24 hours'')]" for reg
  proof -
    let ?st = "st\<lparr>socketConnection := reg\<rparr>"
    let ?idle = "advance ?st (now st + 86400000)"
    have "now ?st \<le> due ?tm" by simp
    from advance_at_due [OF this]
    have "advance (?st\<lparr>timers := timers ?st @ [?tm]\<rparr>) (due ?tm) = timeout_callback ?tm (advance ?st (due ?tm))" .
    moreover have "st\<lparr>timers := timers st @ [?tm], socketConnection := reg\<rparr>
                    = ?st\<lparr>timers := timers ?st @ [?tm]\<rparr>"
      by simp
    moreover have "due ?tm = now st + 86400000" by simp
    ultimately
    have a: "advance (st\<lparr>timers := timers st @ [?tm], socketConnection := reg\<rparr>) (now st + 86400000)
              = timeout_callback ?tm ?idle"
      by metis
    have k: "filter ?P (chats ?idle) = [c]"
      by (rule advance_keeps) (use conv others in simp_all)
    have rem: "remove_first ?P (chats ?idle) = filter (\<lambda>x. \<not> ?P x) (chats ?idle)"
      by (rule remove_first_single [OF k])
    have notc: "filter (\<lambda>x. \<not> ?P x) (chats ?idle) = filter (\<lambda>x. x \<noteq> c) (chats ?idle)"
    proof (rule filter_cong [OF refl])
      fix x assume x: "x \<in> set (chats ?idle)"
      have "?P x \<longleftrightarrow> x \<in> set (filter ?P (chats ?idle))" using x by simp
      also have "\<dots> \<longleftrightarrow> x = c" unfolding k by simp
      finally show "(\<not> ?P x) = (x \<noteq> c)" by simp
    qed
    have c1: "chats (timeout_callback ?tm ?idle) = filter (\<lambda>x. x \<noteq> c) (chats ?idle)"
      by (simp add: timeout_callback_chats rem notc)
    have "find ?P (filter (\<lambda>x. \<not> ?P x) (chats ?idle)) = None"
      by (simp add: find_None_iff)
    then have c2: "Chat_findOne (chats (timeout_callback ?tm ?idle)) ?P = None"
      by (simp add: Chat_findOne_def timeout_callback_chats rem)
    have reg: "socketConnection ?idle = reg"
      by (simp add: advance_socketConnection)
    have c3: "emitted (timeout_callback ?tm ?idle) = emitted ?idle @
               [EmitTo (sock_id s) (reg (Some (data_receiverId dat))) ''chatDeleted''
                  (Message ''Chat history deleted after 24 hours''),
                EmitTo (sock_id s) (reg (Some (u_id u))) ''chatDeleted''
                  (Message ''Chat history deleted after 24 hours'')]"
      by (simp add: timeout_callback_def Let_def reg)
    from c1 c2 c3 show ?thesis unfolding a by simp
  qed
  have a1: "chats (st\<lparr>timers := timers st @ [?tm]\<rparr>) = chats st"
    and a2: "timers (st\<lparr>timers := timers st @ [?tm]\<rparr>) = timers st @ [?tm]"
    by simp_all
  show ?thesis
    unfolding armed Let_def
    using a1 a2 before fired by blast
qed

lemma deferred_deletion_example:
  "authenticationMiddleware J0 st_chat (accesstoken sock1)
     = Promise (Resolved (LoggedInUser user1 \<lparr>tokenId = ''a1'', expierdAt = 5000\<rparr>))
   \<and> filter (pair_filter (Some 1) (Some 2)) (chats st_chat) = [chat12]
   \<and> timers st_chat = [] \<and> now st_chat = 0
   \<and> chats (advance (deleteChatAfter24Hour J0 st_chat sock1 hello_to_2) 86340000) = [chat12]
   \<and> chats (advance ((deleteChatAfter24Hour J0 st_chat sock1 hello_to_2)
              \<lparr>socketConnection := [Some (2::nat) \<mapsto> ''s2'']\<rparr>) 86400000) = []
   \<and> emitted (advance ((deleteChatAfter24Hour J0 st_chat sock1 hello_to_2)
              \<lparr>socketConnection := [Some (2::nat) \<mapsto> ''s2'']\<rparr>) 86400000)
       = [EmitTo ''s1'' (Some ''s2'') ''chatDeleted'' (Message ''Chat history deleted after 24 hours''),
          EmitTo ''s1'' None ''chatDeleted'' (Message ''Chat history deleted after 24 hours'')]"
proof -
  let ?reg = "[Some (2::nat) \<mapsto> ''s2'']"
  have a: "authenticationMiddleware J0 st_chat (accesstoken sock1)
     = Promise (Resolved (LoggedInUser user1 \<lparr>tokenId = ''a1'', expierdAt = 5000\<rparr>))"
    by (simp add: authenticationMiddleware_def validateUserToken_def jwt_verify_def J0_def
          st_chat_def st0_def sock1_def BlackListTokens_findOne_def User_findById_def
          user1_def user2_def user3_def)
  have n: "now st_chat = 0" and ts: "timers st_chat = []" and e: "emitted st_chat = []"
    and cs: "chats st_chat = [chat12]"
    by (simp_all add: st_chat_def st0_def)
  have ids: "u_id user1 = 1" "data_receiverId hello_to_2 = 2" "sock_id sock1 = ''s1''"
    by (simp_all add: user1_def hello_to_2_def sock1_def)
  have cv: "filter (pair_filter (Some (u_id user1)) (Some (data_receiverId hello_to_2))) (chats st_chat) = [chat12]"
    unfolding ids cs by (simp add: chat12_def pair_filter_def)
  have ot: "\<forall>tm\<in>set (timers st_chat). \<not> pair_filter (t_loggedInUser_id tm) (Some (t_receiverId tm)) chat12"
    unfolding ts by simp
  have i1: "chats (advance st_chat 86340000) = [chat12]"
    by (simp add: advance_def ts cs n)
  have i2: "chats (advance (st_chat\<lparr>socketConnection := ?reg\<rparr>) 86400000) = [chat12]"
    and i3: "emitted (advance (st_chat\<lparr>socketConnection := ?reg\<rparr>) 86400000) = []"
    by (simp_all add: advance_def ts cs n e)
  note th = deferred_deletion [OF a cv ot, unfolded Let_def ids n]
  from th have "chats (advance (deleteChatAfter24Hour J0 st_chat sock1 hello_to_2) 86340000)
                  = chats (advance st_chat 86340000)"
    by simp
  moreover from th have
    "chats (advance ((deleteChatAfter24Hour J0 st_chat sock1 hello_to_2)\<lparr>socketConnection := ?reg\<rparr>) 86400000)
       = filter (\<lambda>x. x \<noteq> chat12) (chats (advance (st_chat\<lparr>socketConnection := ?reg\<rparr>) 86400000))"
    and "emitted (advance ((deleteChatAfter24Hour J0 st_chat sock1 hello_to_2)\<lparr>socketConnection := ?reg\<rparr>) 86400000)
       = emitted (advance (st_chat\<lparr>socketConnection := ?reg\<rparr>) 86400000) @
           [EmitTo ''s1'' (?reg (Some (2::nat))) ''chatDeleted'' (Message ''Chat history deleted after 24 hours''),
            EmitTo ''s1'' (?reg (Some (1::nat))) ''chatDeleted'' (Message ''Chat history deleted after 24 hours'')]"
    by simp_all
  ultimately show ?thesis
    using a cv ts n unfolding i1 i2 i3 ids by simp
qed

section \<open>The refresh route does not consult the blacklist\<close>

lemma refresh_ignores_blacklist:
  "refreshTokenServices J S (st\<lparr>blackListTokens := rows\<rparr>) refreshtoken nanoid lifetime
   = refreshTokenServices J S st refreshtoken nanoid lifetime"
  by (simp add: refreshTokenServices_def split: sum.splits)

text \<open>
  C4. The refresh token of a sign-out is accepted again. Account 1 signs out, which puts the
  rows of its access and refresh tokens on the blacklist; one second later the refresh
  route, given that refresh token, answers 201 with a new access token, and the new token
  authenticates as account 1.
\<close>

theorem revoked_refresh_token_still_accepted:
  "signOutService J1 st0 ''access-1'' ''refresh-1''
     = (st_signed_out, Resolved (201, ''Logged out Successfully''))
   \<and> BlackListTokens_findOne (blackListTokens st_signed_out) ''r1''
       = Some \<lparr>tokenId = ''r1'', expierdAt = 9000\<rparr>
   \<and> refreshTokenServices J1 S1 (run J1 st_signed_out [Elapse 1000]) ''refresh-1'' ''n1'' 3600
       = Resolved (201, ''Token Refreshed Success'', Some ''access-1-renewed'')
   \<and> validateUserToken J1 (run J1 st_signed_out [Elapse 1000]) ''access-1-renewed'' (Some ResObj)
       = Resolved (LoggedInUser user1 \<lparr>tokenId = ''n1'', expierdAt = 3601\<rparr>)"
proof -
  have out: "signOutService J1 st0 ''access-1'' ''refresh-1''
     = (st_signed_out, Resolved (201, ''Logged out Successfully''))"
    by (simp add: signOutService_def verifyToken_def jwt_verify_def J1_def J0_def st0_def
          st_signed_out_def)
  have row: "BlackListTokens_findOne (blackListTokens st_signed_out) ''r1''
       = Some \<lparr>tokenId = ''r1'', expierdAt = 9000\<rparr>"
    by (simp add: BlackListTokens_findOne_def st_signed_out_def st0_def)
  have later: "run J1 st_signed_out [Elapse 1000] = st_signed_out\<lparr>now := 1000\<rparr>"
    by (simp add: run_def advance_def st_signed_out_def st0_def)
  have refresh: "refreshTokenServices J1 S1 (st_signed_out\<lparr>now := 1000\<rparr>) ''refresh-1'' ''n1'' 3600
       = Resolved (201, ''Token Refreshed Success'', Some ''access-1-renewed'')"
    by (simp add: refreshTokenServices_def verifyToken_def jwt_verify_def generateToken_def
          J1_def J0_def S1_def st_signed_out_def st0_def)
  have again: "validateUserToken J1 (st_signed_out\<lparr>now := 1000\<rparr>) ''access-1-renewed'' (Some ResObj)
       = Resolved (LoggedInUser user1 \<lparr>tokenId = ''n1'', expierdAt = 3601\<rparr>)"
    by (simp add: validateUserToken_def jwt_verify_def J1_def BlackListTokens_findOne_def
          User_findById_def st_signed_out_def st0_def user1_def user2_def user3_def)
  from out row refresh again show ?thesis unfolding later by simp
qed

section \<open>The deleteChat listener is never attached\<close>

lemma fold_timeout_listeners:
  "listeners (fold timeout_callback tms s) = listeners s"
  by (induction tms arbitrary: s) (auto simp add: timeout_callback_def Let_def split: option.splits)

lemma sendMessage_listeners: "listeners (sendMessage st s i dat) = listeners st"
  by (simp add: sendMessage_def Let_def split: prod.splits option.splits)

lemma sendMessage_timers: "timers (sendMessage st s i dat) = timers st"
  by (simp add: sendMessage_def Let_def split: prod.splits option.splits)

lemma step_no_deleteChat_listener:
  assumes "no_deleteChat_listener st" and "timers st = []"
  shows "no_deleteChat_listener (step J st r) \<and> timers (step J st r) = []"
proof (cases r)
  case (DeleteChat s dat)
  from assms(1) have "\<not> listening st s ''deleteChat''"
    by (auto simp add: no_deleteChat_listener_def listening_def list_all_iff)
  with DeleteChat assms show ?thesis by simp
next
  case (Elapse n)
  with assms show ?thesis
    by (simp add: advance_def no_deleteChat_listener_def)
qed (use assms in \<open>auto simp add: no_deleteChat_listener_def list_all_iff
       establishIoConnection_def registerSocketId_def removeSocket_def disconnected_def
       sendMessageService_def sendMessage_listeners sendMessage_timers route_def middleware_def
       deleteChatHistoryServicve_def softDeleteAccountService_def signOutService_def
       split: auth.splits promise.splits option.splits sum.splits if_splits\<close>)

lemma run_no_deleteChat_listener:
  "no_deleteChat_listener st \<Longrightarrow> timers st = []
   \<Longrightarrow> no_deleteChat_listener (run J st rs) \<and> timers (run J st rs) = []"
  unfolding run_def
  by (induction rs arbitrary: st) (simp_all add: step_no_deleteChat_listener)

lemma deleteChat_request_dropped:
  "no_deleteChat_listener st \<Longrightarrow> step J st (DeleteChat s dat) = st"
  by (auto simp add: no_deleteChat_listener_def listening_def list_all_iff)

text \<open>
  C7. No deletion is ever scheduled. Account 1 connects: the connection callback ends with
  the ReferenceError, and the socket has the \<open>sendMessage\<close> and \<open>disconnect\<close> listeners
  only. Its \<open>deleteChat\<close> event for the conversation with account 2 arms no timer, and 24
  hours later the conversation is still stored and nothing has been emitted.
\<close>

theorem deleteChat_listener_never_attached:
  "snd (establishIoConnection J0 st_chat sock1)
     = Rejected (ReferenceError ''deleteChatAfter24Hour is not defined'')
   \<and> listeners (step J0 st_chat (Connection sock1)) = [(sock1, ''sendMessage''), (sock1, ''disconnect'')]
   \<and> timers (run J0 st_chat [Connection sock1, DeleteChat sock1 hello_to_2]) = []
   \<and> chats (run J0 st_chat [Connection sock1, DeleteChat sock1 hello_to_2, Elapse 86400000]) = [chat12]
   \<and> emitted (run J0 st_chat [Connection sock1, DeleteChat sock1 hello_to_2, Elapse 86400000]) = []"
proof -
  let ?st1 = "st_chat\<lparr>socketConnection := [Some 1 \<mapsto> ''s1''],
                      listeners := [(sock1, ''sendMessage''), (sock1, ''disconnect'')]\<rparr>"
  have c: "establishIoConnection J0 st_chat sock1
            = (?st1, Rejected (ReferenceError ''deleteChatAfter24Hour is not defined''))"
    by (simp add: establishIoConnection_def registerSocketId_def authenticationMiddleware_def
          validateUserToken_def jwt_verify_def J0_def st_chat_def st0_def sock1_def
          BlackListTokens_findOne_def User_findById_def user1_def user2_def user3_def
          validated_id_def)
  have n: "no_deleteChat_listener ?st1"
    by (simp add: no_deleteChat_listener_def)
  have d: "step J0 ?st1 (DeleteChat sock1 hello_to_2) = ?st1"
    by (rule deleteChat_request_dropped [OF n])
  have s1: "step J0 st_chat (Connection sock1) = ?st1"
    by (simp add: c)
  have e: "step J0 ?st1 (Elapse 86400000) = ?st1\<lparr>now := 86400000\<rparr>"
    by (simp add: advance_def st_chat_def st0_def)
  have r2: "run J0 st_chat [Connection sock1, DeleteChat sock1 hello_to_2] = ?st1"
    by (simp only: run_def foldl_Cons foldl_Nil s1 d)
  have r3: "run J0 st_chat [Connection sock1, DeleteChat sock1 hello_to_2, Elapse 86400000]
              = ?st1\<lparr>now := 86400000\<rparr>"
    by (simp only: run_def foldl_Cons foldl_Nil s1 d e)
  show ?thesis
    unfolding r2 r3 s1 c by (simp add: st_chat_def st0_def)
qed

end
